theory Spec2Isabelle
  imports Complex_Main "HOL-Library.Word"
begin

section \<open>LuxCore: the LIGHTCPU render engine controller and the auto-linear tone map\<close>

text \<open>
  The development embeds two translation units:
  \<^item> \<^verbatim>\<open>src/slg/engines/lightcpu/lightcpu.cpp\<close> (constructor, InitFilm, GetRenderState,
    StartLockLess, ToProperties, FromProperties, GetDefaultProps);
  \<^item> \<^verbatim>\<open>src/slg/film/imagepipeline/plugins/tonemaps/autolinear.cpp\<close>
    (GetGammaCorrectionValue, CalcLinearToneMapScale, Apply).

  Two kinds of things that the code uses are declared elsewhere and are parameters here:
  the arithmetic of the C++ type \<^verbatim>\<open>float\<close> together with the \<^verbatim>\<open>Spectrum\<close> pixel class
  (record \<open>Primitives\<close>), and the collaborators of the engine: base classes, sampler,
  render-state check (record \<open>Collaborators\<close>). Every theorem holds for all values of
  these parameters, so in particular for IEEE binary32 arithmetic.
\<close>

subsection \<open>Machine types\<close>

type_synonym u_int = "32 word"

text \<open>
  \<open>'f\<close> stands for the C++ type \<^verbatim>\<open>float\<close>, \<open>'s\<close> for the pixel class \<^verbatim>\<open>Spectrum\<close>.
  \<open>f_lit q\<close> is the \<^verbatim>\<open>float\<close> literal whose decimal value is \<open>q\<close> (\<^verbatim>\<open>1.25f\<close> is
  \<open>f_lit (5/4)\<close>); \<open>f_of_uint\<close> is the implicit conversion of an \<^verbatim>\<open>u_int\<close> operand
  of a \<^verbatim>\<open>float\<close> operation; \<open>f_Max\<close> is the template \<^verbatim>\<open>luxrays::Max\<close> at \<^verbatim>\<open>float\<close>;
  \<open>Spectrum_Y\<close> is \<^verbatim>\<open>Spectrum::Y()\<close> and \<open>Spectrum_scale a s\<close> is \<^verbatim>\<open>a * s\<close>.
\<close>

record ('f, 's) Primitives =
  f_lit :: "rat \<Rightarrow> 'f"
  f_add :: "'f \<Rightarrow> 'f \<Rightarrow> 'f"
  f_mul :: "'f \<Rightarrow> 'f \<Rightarrow> 'f"
  f_div :: "'f \<Rightarrow> 'f \<Rightarrow> 'f"
  f_le :: "'f \<Rightarrow> 'f \<Rightarrow> bool"
  f_isinf :: "'f \<Rightarrow> bool"
  f_of_uint :: "u_int \<Rightarrow> 'f"
  f_powf :: "'f \<Rightarrow> 'f \<Rightarrow> 'f"
  f_Max :: "'f \<Rightarrow> 'f \<Rightarrow> 'f"
  Spectrum_Y :: "'s \<Rightarrow> 'f"
  Spectrum_scale :: "'f \<Rightarrow> 's \<Rightarrow> 's"

subsection \<open>The film\<close>

datatype FilmChannelType = RADIANCE_PER_PIXEL_NORMALIZED | RADIANCE_PER_SCREEN_NORMALIZED
  | RGB_TONEMAPPED | FRAMEBUFFER_MASK

text \<open>
  An image pipeline is the sequence of its plugins. Only the gamma-correction plugin and
  its member \<^verbatim>\<open>gamma\<close> are read by the code; any other plugin is identified by its class
  name.
\<close>

datatype 'f ImagePipelinePlugin = GammaCorrectionPlugin (gamma: 'f) | OtherPlugin string

datatype plugin_type_info = typeid_GammaCorrectionPlugin | typeid_OtherPlugin string

type_synonym 'f ImagePipeline = "'f ImagePipelinePlugin list"

text \<open>
  The members of class \<^verbatim>\<open>Film\<close> that the two files touch. A frame buffer is the list of
  its pixels in index order; \<^verbatim>\<open>imagePipeline\<close> is a pointer, \<open>None\<close> when null.
\<close>

record ('f, 's) Film =
  width :: u_int
  height :: u_int
  channels :: "FilmChannelType set"
  enabledOverlappedScreenBufferUpdate :: bool
  radianceGroupCount :: u_int
  channel_RGB_TONEMAPPED :: "'s list"
  channel_FRAMEBUFFER_MASK :: "u_int list"
  imagePipeline :: "'f ImagePipeline option"

text \<open>
  Every frame buffer of a film holds \<^verbatim>\<open>width * height\<close> pixels (the product taken in
  \<^verbatim>\<open>u_int\<close>, as \<^verbatim>\<open>Apply\<close> computes it). Reads beyond a buffer are undefined in C++; the
  theorems on \<^verbatim>\<open>Apply\<close> are stated for films of this shape.
\<close>

definition wf_film :: "('f, 's) Film \<Rightarrow> bool" where
  "wf_film film =
     (length (channel_RGB_TONEMAPPED film) = unat (width film * height film) \<and>
      length (channel_FRAMEBUFFER_MASK film) = unat (width film * height film))"

subsection \<open>autolinear.cpp\<close>

definition typeid_of :: "'f ImagePipelinePlugin \<Rightarrow> plugin_type_info" where
  "typeid_of p = (case p of GammaCorrectionPlugin g \<Rightarrow> typeid_GammaCorrectionPlugin
                  | OtherPlugin n \<Rightarrow> typeid_OtherPlugin n)"

text \<open>
  Modelled from the spec: \<^verbatim>\<open>ImagePipeline::GetPlugin\<close> is declared outside the two files.
  The spec speaks of "an optional gamma-correction stage if present in the post-process
  pipeline": the lookup yields the first plugin of the requested class, null when the
  pipeline has none.
\<close>

fun GetPlugin :: "'f ImagePipeline \<Rightarrow> plugin_type_info \<Rightarrow> 'f ImagePipelinePlugin option" where
  "GetPlugin [] ty = None"
| "GetPlugin (p # ps) ty = (if typeid_of p = ty then Some p else GetPlugin ps ty)"

text \<open>
  \<^verbatim>\<open>AutoLinearToneMap::GetGammaCorrectionValue\<close>, lines 58-68. The last case stands for
  both a null result and (unreachable, by the type test of the lookup) a plugin of another
  class.
\<close>

definition GetGammaCorrectionValue :: "('f, 's) Primitives \<Rightarrow> ('f, 's) Film \<Rightarrow> 'f" where
  "GetGammaCorrectionValue P film =
     (let gamma0 = f_lit P (11 / 5) in
      case imagePipeline film of
        None \<Rightarrow> gamma0
      | Some ip \<Rightarrow>
          (case GetPlugin ip typeid_GammaCorrectionPlugin of
             Some (GammaCorrectionPlugin g) \<Rightarrow> g
           | _ \<Rightarrow> gamma0))"

text \<open>\<^verbatim>\<open>AutoLinearToneMap::CalcLinearToneMapScale\<close>, lines 70-77.\<close>

definition CalcLinearToneMapScale :: "('f, 's) Primitives \<Rightarrow> ('f, 's) Film \<Rightarrow> 'f \<Rightarrow> 'f" where
  "CalcLinearToneMapScale P film Y =
     (let gamma0 = GetGammaCorrectionValue P film;
          scale = f_mul P (f_div P (f_lit P (5 / 4)) Y)
                    (f_powf P (f_div P (f_lit P 118) (f_lit P 255)) gamma0)
      in scale)"

text \<open>
  The first loop of \<^verbatim>\<open>Apply\<close>, lines 88-96: \<open>i\<close> is the loop counter, \<open>pixelCount\<close> its
  bound and \<open>Y\<close> the running sum. \<^verbatim>\<open>continue\<close> is the branch that keeps \<open>Y\<close>.
\<close>

function Apply_sum :: "('f, 's) Primitives \<Rightarrow> ('f, 's) Film \<Rightarrow> nat \<Rightarrow> nat \<Rightarrow> 'f \<Rightarrow> 'f" where
  "Apply_sum P film i pixelCount Y =
     (if i < pixelCount then
        (if channel_FRAMEBUFFER_MASK film ! i \<noteq> 0 then
           (if f_le P (Spectrum_Y P (channel_RGB_TONEMAPPED film ! i)) (f_lit P 0)
               \<or> f_isinf P (Spectrum_Y P (channel_RGB_TONEMAPPED film ! i))
            then Apply_sum P film (i + 1) pixelCount Y
            else Apply_sum P film (i + 1) pixelCount
                   (f_add P Y (Spectrum_Y P (channel_RGB_TONEMAPPED film ! i))))
         else Apply_sum P film (i + 1) pixelCount Y)
      else Y)"
  by pat_completeness auto
termination
  by (relation "measure (\<lambda>(P, film, i, pixelCount, Y). pixelCount - i)") auto

declare Apply_sum.simps [simp del]

text \<open>
  The value of the local \<^verbatim>\<open>Y\<close> after line 97: the sum of the first loop divided by
  \<^verbatim>\<open>pixelCount\<close>, which is converted to \<^verbatim>\<open>float\<close> for the division.
\<close>

definition Apply_Y :: "('f, 's) Primitives \<Rightarrow> ('f, 's) Film \<Rightarrow> 'f" where
  "Apply_Y P film =
     (let pixelCount = width film * height film;
          Y = Apply_sum P film 0 (unat pixelCount) (f_lit P 0)
      in f_div P Y (f_of_uint P pixelCount))"

text \<open>
  The second loop, lines 104-115. Its iterations write distinct pixels and read nothing
  another iteration writes, so the OpenMP loop has the result of the sequential one.
\<close>

function Apply_scale :: "('f, 's) Primitives \<Rightarrow> 'f \<Rightarrow> u_int list \<Rightarrow> nat \<Rightarrow> nat \<Rightarrow> 's list \<Rightarrow> 's list" where
  "Apply_scale P scale maskbuf i pixelCount pixels =
     (if i < pixelCount then
        Apply_scale P scale maskbuf (i + 1) pixelCount
          (if maskbuf ! i \<noteq> 0 then pixels[i := Spectrum_scale P scale (pixels ! i)] else pixels)
      else pixels)"
  by pat_completeness auto
termination
  by (relation "measure (\<lambda>(P, scale, maskbuf, i, pixelCount, pixels). pixelCount - i)") auto

declare Apply_scale.simps [simp del]

text \<open>
  The scale that \<^verbatim>\<open>Apply\<close> derives at line 102, \<open>None\<close> when it returns at line 100
  before deriving one.
\<close>

definition Apply_derived_scale :: "('f, 's) Primitives \<Rightarrow> ('f, 's) Film \<Rightarrow> 'f option" where
  "Apply_derived_scale P film =
     (if f_le P (Apply_Y P film) (f_lit P 0) then None
      else Some (CalcLinearToneMapScale P film (Apply_Y P film)))"

text \<open>\<^verbatim>\<open>AutoLinearToneMap::Apply\<close>, lines 83-116.\<close>

definition Apply :: "('f, 's) Primitives \<Rightarrow> ('f, 's) Film \<Rightarrow> ('f, 's) Film" where
  "Apply P film =
     (let pixels = channel_RGB_TONEMAPPED film;
          pixelCount = width film * height film
      in case Apply_derived_scale P film of
           None \<Rightarrow> film
         | Some scale \<Rightarrow>
             film\<lparr>channel_RGB_TONEMAPPED :=
               Apply_scale P scale (channel_FRAMEBUFFER_MASK film) 0 (unat pixelCount) pixels\<rparr>)"

subsection \<open>Exceptions and the property bag\<close>

datatype exn = runtime_error string | bad_lexical_cast string

definition bindE :: "exn + 'a \<Rightarrow> ('a \<Rightarrow> exn + 'b) \<Rightarrow> exn + 'b" where
  "bindE m k = (case m of Inl x \<Rightarrow> Inl x | Inr a \<Rightarrow> k a)"

text \<open>
  Modelled from the spec: the classes \<^verbatim>\<open>Property\<close> and \<^verbatim>\<open>Properties\<close> of the luxrays
  library are declared outside the two files. The spec calls the configuration a
  "property bag, string-keyed", whose keys hold an \<^verbatim>\<open>int\<close> or a \<^verbatim>\<open>float\<close> and have
  defaults. A property is a name with a value; a bag maps a name to the value it holds.
  An \<^verbatim>\<open>int\<close> is kept as its 32 bits.
\<close>

datatype 'f PropertyValue = BoolVal bool | IntVal "32 word" | FloatVal 'f | StringVal string

type_synonym 'f Property = "string \<times> 'f PropertyValue"

type_synonym 'f Properties = "string \<Rightarrow> 'f PropertyValue option"

text \<open>\<^verbatim>\<open>props.IsDefined(name)\<close>\<close>

definition IsDefined :: "'f Properties \<Rightarrow> string \<Rightarrow> bool" where
  "IsDefined props name = (props name \<noteq> None)"

text \<open>\<^verbatim>\<open>props.Get(defaultProp)\<close>: the bag's property of that name, else the default itself.\<close>

definition Get_or :: "'f Properties \<Rightarrow> 'f Property \<Rightarrow> 'f Property" where
  "Get_or props defaultProp =
     (case props (fst defaultProp) of
        Some v \<Rightarrow> (fst defaultProp, v)
      | None \<Rightarrow> defaultProp)"

text \<open>\<^verbatim>\<open>props.Get(name)\<close>: the property of that name; an undefined name raises.\<close>

definition Get_named :: "'f Properties \<Rightarrow> string \<Rightarrow> exn + 'f Property" where
  "Get_named props name =
     (case props name of
        Some v \<Rightarrow> Inr (name, v)
      | None \<Rightarrow> Inl (runtime_error (''Undefined property in Properties::Get(): '' @ name)))"

text \<open>\<^verbatim>\<open>props << prop\<close> and \<^verbatim>\<open>props << otherProps\<close>: a later value replaces an earlier one.\<close>

definition Set_Property :: "'f Properties \<Rightarrow> 'f Property \<Rightarrow> 'f Properties" where
  "Set_Property props prop = props(fst prop \<mapsto> snd prop)"

definition Set_Properties :: "'f Properties \<Rightarrow> 'f Properties \<Rightarrow> 'f Properties" where
  "Set_Properties props other = props ++ other"

subsection \<open>Scene, render configuration, render state, engine\<close>

text \<open>
  \<^verbatim>\<open>Camera::STEREO\<close> is the one enumerator the code names; the others stand for the
  remaining camera classes.
\<close>

datatype CameraType = PERSPECTIVE | ORTHOGRAPHIC | STEREO | ENVIRONMENT

record Camera =
  GetType :: CameraType

record LightSourceDefinitions =
  GetLightGroupCount :: u_int

record Scene =
  camera :: Camera
  lightDefs :: LightSourceDefinitions

record 'f RenderConfig =
  cfg :: "'f Properties"
  scene :: Scene

text \<open>
  Modelled from the spec: class \<^verbatim>\<open>LightCPURenderState\<close> is declared in
  \<^verbatim>\<open>lightcpurenderstate.h\<close>, outside the two files. The spec: "RenderState: opaque value
  object = {engineTypeTag, bootstrapSeed}".
\<close>

record LightCPURenderState =
  engineTag :: string
  state_bootStrapSeed :: u_int

datatype PixelFilter = PixelFilter string

datatype FilmSampleSplatter = FilmSampleSplatter PixelFilter

text \<open>
  The members of \<^verbatim>\<open>LightCPURenderEngine\<close> and of its base classes that the file reads or
  writes. A pointer member is an option, \<open>None\<close> when null.
\<close>

record ('f, 's) LightCPURenderEngine =
  renderConfig :: "'f RenderConfig"
  film :: "('f, 's) Film"
  pixelFilter :: PixelFilter
  sampleSplatter :: "FilmSampleSplatter option"
  bootStrapSeed :: u_int
  startRenderState :: "LightCPURenderState option"
  hasStartFilm :: bool
  maxPathDepth :: "32 word"
  rrDepth :: "32 word"
  rrImportanceCap :: 'f
  sqrtVarianceClampMaxValue :: 'f

text \<open>
  What the engine calls and the two files do not define:
  \<^item> \<open>GetObjectTag\<close>, \<open>RenderEngineType2String_GetType\<close>: the engine's tag and type name;
  \<^item> \<open>CheckSamplersForNoTile\<close>, \<open>CheckEngineTag\<close>: checks that raise (\<open>Some\<close>) or
    return (\<open>None\<close>);
  \<^item> \<open>CPUNoTileRenderEngine_ctor\<close>, \<open>CPUNoTileRenderEngine_StartLockLess\<close>,
    \<open>CPUNoTileRenderEngine_ToProperties\<close>, \<open>CPUNoTileRenderEngine_GetDefaultProps\<close>: the
    base class;
  \<^item> \<open>Sampler_ToProperties\<close>; \<open>Film_Init\<close>;
  \<^item> \<open>lexical_cast_int\<close>, \<open>lexical_cast_float\<close>: what \<^verbatim>\<open>Get<int>()\<close> and
    \<^verbatim>\<open>Get<float>()\<close> do with a value of another type;
  \<^item> \<open>bootStrapSeed_through_engine_pointer st\<close>: the \<^verbatim>\<open>u_int\<close> that the member access
    \<^verbatim>\<open>rs->bootStrapSeed\<close> of line 86 yields when \<^verbatim>\<open>rs\<close>, of static type
    \<^verbatim>\<open>LightCPURenderEngine *\<close> (the cast of line 83), points to the render-state object
    \<open>st\<close>. The access reads at the offset the member has in the engine class; which
    bytes that meets is fixed by the class layouts, not by the two files.
\<close>

record ('f, 's) Collaborators =
  GetObjectTag :: string
  RenderEngineType2String_GetType :: string
  CheckSamplersForNoTile :: "string \<Rightarrow> 'f Properties \<Rightarrow> exn option"
  CheckEngineTag :: "LightCPURenderState \<Rightarrow> string \<Rightarrow> exn option"
  CPUNoTileRenderEngine_ctor :: "'f RenderConfig \<Rightarrow> exn + ('f, 's) LightCPURenderEngine"
  CPUNoTileRenderEngine_StartLockLess ::
    "('f, 's) LightCPURenderEngine \<Rightarrow> exn + ('f, 's) LightCPURenderEngine"
  CPUNoTileRenderEngine_ToProperties :: "'f Properties \<Rightarrow> 'f Properties"
  CPUNoTileRenderEngine_GetDefaultProps :: "'f Properties"
  Sampler_ToProperties :: "'f Properties \<Rightarrow> 'f Properties"
  Film_Init :: "('f, 's) Film \<Rightarrow> ('f, 's) Film"
  lexical_cast_int :: "'f PropertyValue \<Rightarrow> exn + 32 word"
  lexical_cast_float :: "'f PropertyValue \<Rightarrow> exn + 'f"
  bootStrapSeed_through_engine_pointer :: "LightCPURenderState \<Rightarrow> u_int"

text \<open>\<^verbatim>\<open>prop.Get<int>()\<close> and \<^verbatim>\<open>prop.Get<float>()\<close>\<close>

definition Get_int :: "('f, 's) Collaborators \<Rightarrow> 'f Property \<Rightarrow> exn + 32 word" where
  "Get_int X prop = (case snd prop of IntVal n \<Rightarrow> Inr n | v \<Rightarrow> lexical_cast_int X v)"

definition Get_float :: "('f, 's) Collaborators \<Rightarrow> 'f Property \<Rightarrow> exn + 'f" where
  "Get_float X prop = (case snd prop of FloatVal x \<Rightarrow> Inr x | v \<Rightarrow> lexical_cast_float X v)"

text \<open>
  Modelled from the spec: the setters of class \<^verbatim>\<open>Film\<close> are declared outside the two
  files. The spec lists them as the film interface consumed: \<^verbatim>\<open>AddChannel(kind)\<close>,
  \<^verbatim>\<open>SetOverlappedScreenBufferUpdateFlag(bool)\<close>, \<^verbatim>\<open>SetRadianceGroupCount(n)\<close>.
\<close>

definition AddChannel :: "('f, 's) Film \<Rightarrow> FilmChannelType \<Rightarrow> ('f, 's) Film" where
  "AddChannel f ty = f\<lparr>channels := insert ty (channels f)\<rparr>"

definition SetOverlappedScreenBufferUpdateFlag :: "('f, 's) Film \<Rightarrow> bool \<Rightarrow> ('f, 's) Film" where
  "SetOverlappedScreenBufferUpdateFlag f b = f\<lparr>enabledOverlappedScreenBufferUpdate := b\<rparr>"

definition SetRadianceGroupCount :: "('f, 's) Film \<Rightarrow> u_int \<Rightarrow> ('f, 's) Film" where
  "SetRadianceGroupCount f n = f\<lparr>radianceGroupCount := n\<rparr>"

text \<open>
  Modelled from the spec: \<^verbatim>\<open>LightCPURenderState\<close>'s constructor and
  \<^verbatim>\<open>RenderEngine::SetSeed\<close> are defined outside the two files. The spec: a render state
  is a "snapshot of current seed" with the engine type tag; on resume the bootstrap seed
  of the run is the seed handed to \<^verbatim>\<open>SetSeed\<close>.
\<close>

definition LightCPURenderState_ctor :: "('f, 's) Collaborators \<Rightarrow> u_int \<Rightarrow> LightCPURenderState" where
  "LightCPURenderState_ctor X seed = \<lparr>engineTag = GetObjectTag X, state_bootStrapSeed = seed\<rparr>"

definition SetSeed :: "('f, 's) LightCPURenderEngine \<Rightarrow> u_int \<Rightarrow> ('f, 's) LightCPURenderEngine" where
  "SetSeed e seed = e\<lparr>bootStrapSeed := seed\<rparr>"

subsection \<open>lightcpu.cpp\<close>

text \<open>
  The constructor, lines 29-33: the base-class constructor runs first, then the member
  initialiser \<^verbatim>\<open>sampleSplatter(NULL)\<close>, then the body. A constructor that throws
  leaves no object: the result is the exception alone.
\<close>

definition LightCPURenderEngine_ctor ::
  "('f, 's) Collaborators \<Rightarrow> 'f RenderConfig \<Rightarrow> exn + ('f, 's) LightCPURenderEngine" where
  "LightCPURenderEngine_ctor X rcfg =
     bindE (CPUNoTileRenderEngine_ctor X rcfg) (\<lambda>base.
       let e = base\<lparr>sampleSplatter := None\<rparr> in
       if GetType (camera (scene rcfg)) = STEREO
       then Inl (runtime_error ''Light render engine doesn't support stereo camera'')
       else Inr e)"

text \<open>\<^verbatim>\<open>LightCPURenderEngine::InitFilm\<close>, lines 39-45.\<close>

definition InitFilm ::
  "('f, 's) Collaborators \<Rightarrow> ('f, 's) LightCPURenderEngine \<Rightarrow> ('f, 's) LightCPURenderEngine" where
  "InitFilm X e =
     (let f1 = AddChannel (film e) RADIANCE_PER_PIXEL_NORMALIZED;
          f2 = AddChannel f1 RADIANCE_PER_SCREEN_NORMALIZED;
          f3 = SetOverlappedScreenBufferUpdateFlag f2 True;
          f4 = SetRadianceGroupCount f3 (GetLightGroupCount (lightDefs (scene (renderConfig e))));
          f5 = Film_Init X f4
      in e\<lparr>film := f5\<rparr>)"

text \<open>
  \<^verbatim>\<open>LightCPURenderEngine::GetRenderState\<close>, lines 47-49: the new state object, and the
  engine as the call leaves it.
\<close>

definition GetRenderState ::
  "('f, 's) Collaborators \<Rightarrow> ('f, 's) LightCPURenderEngine
     \<Rightarrow> LightCPURenderState \<times> ('f, 's) LightCPURenderEngine" where
  "GetRenderState X e = (LightCPURenderState_ctor X (bootStrapSeed e), e)"

text \<open>\<^verbatim>\<open>LightCPURenderEngine::GetDefaultProps\<close>, lines 129-139.\<close>

definition GetDefaultProps :: "('f, 's) Collaborators \<Rightarrow> ('f, 's) Primitives \<Rightarrow> 'f Properties" where
  "GetDefaultProps X P =
     foldl Set_Property
       (Set_Properties Map.empty (CPUNoTileRenderEngine_GetDefaultProps X))
       [(''renderengine.type'', StringVal (GetObjectTag X)),
        (''light.maxdepth'', IntVal 5),
        (''light.russianroulette.depth'', IntVal 3),
        (''light.russianroulette.cap'', FloatVal (f_lit P (1 / 2))),
        (''path.clamping.variance.maxvalue'', FloatVal (f_lit P 0))]"

text \<open>\<^verbatim>\<open>cfg.Get(GetDefaultProps().Get(name))\<close>, the idiom of lines 64-66, 72 and 118-121.\<close>

definition Get_cfg :: "('f, 's) Collaborators \<Rightarrow> ('f, 's) Primitives \<Rightarrow> 'f Properties \<Rightarrow> string
    \<Rightarrow> exn + 'f Property" where
  "Get_cfg X P c name = bindE (Get_named (GetDefaultProps X P) name) (\<lambda>d. Inr (Get_or c d))"

text \<open>\<^verbatim>\<open>LightCPURenderEngine::ToProperties\<close>, lines 116-123.\<close>

definition ToProperties :: "('f, 's) Collaborators \<Rightarrow> ('f, 's) Primitives \<Rightarrow> 'f Properties
    \<Rightarrow> exn + 'f Properties" where
  "ToProperties X P c =
     bindE (Get_cfg X P c ''renderengine.type'') (\<lambda>p0.
     bindE (Get_cfg X P c ''light.maxdepth'') (\<lambda>p1.
     bindE (Get_cfg X P c ''light.russianroulette.depth'') (\<lambda>p2.
     bindE (Get_cfg X P c ''light.russianroulette.cap'') (\<lambda>p3.
       Inr (Set_Properties
              (foldl Set_Property (CPUNoTileRenderEngine_ToProperties X c) [p0, p1, p2, p3])
              (Sampler_ToProperties X c))))))"

text \<open>\<^verbatim>\<open>LightCPURenderEngine::FromProperties\<close>, lines 125-127.\<close>

definition FromProperties ::
  "('f, 's) Collaborators \<Rightarrow> 'f RenderConfig \<Rightarrow> exn + ('f, 's) LightCPURenderEngine" where
  "FromProperties X rcfg = LightCPURenderEngine_ctor X rcfg"

text \<open>
  \<^verbatim>\<open>StartLockLess\<close>, section "Rendering parameters", lines 64-73: the four members it
  assigns.
\<close>

definition StartLockLess_parameters ::
  "('f, 's) Collaborators \<Rightarrow> ('f, 's) Primitives \<Rightarrow> ('f, 's) LightCPURenderEngine
     \<Rightarrow> exn + ('f, 's) LightCPURenderEngine" where
  "StartLockLess_parameters X P e =
     (let c = cfg (renderConfig e) in
      bindE (bindE (Get_cfg X P c ''light.maxdepth'') (Get_int X)) (\<lambda>v1.
      bindE (bindE (Get_cfg X P c ''light.russianroulette.depth'') (Get_int X)) (\<lambda>v2.
      bindE (bindE (Get_cfg X P c ''light.russianroulette.cap'') (Get_float X)) (\<lambda>v3.
      bindE (Get_float X (Get_or c (''path.clamping.radiance.maxvalue'', FloatVal (f_lit P 0)))) (\<lambda>v4.
      bindE (if IsDefined c ''path.clamping.variance.maxvalue''
             then bindE (Get_cfg X P c ''path.clamping.variance.maxvalue'') (Get_float X)
             else Inr v4) (\<lambda>v5.
        Inr (e\<lparr>maxPathDepth := v1, rrDepth := v2, rrImportanceCap := v3,
                sqrtVarianceClampMaxValue := f_Max P (f_lit P 0) v5\<rparr>)))))))"

text \<open>
  \<^verbatim>\<open>StartLockLess\<close>, section "Restore render state if there is one", lines 79-95. The
  log line has no effect on the engine.
\<close>

definition StartLockLess_restore ::
  "('f, 's) Collaborators \<Rightarrow> ('f, 's) LightCPURenderEngine \<Rightarrow> exn + ('f, 's) LightCPURenderEngine" where
  "StartLockLess_restore X e =
     (case startRenderState e of
        Some rs \<Rightarrow>
          (case CheckEngineTag X rs (GetObjectTag X) of
             Some x \<Rightarrow> Inl x
           | None \<Rightarrow>
               (let newSeed = bootStrapSeed_through_engine_pointer X rs + 1
                in Inr ((SetSeed e newSeed)\<lparr>startRenderState := None, hasStartFilm := True\<rparr>)))
      | None \<Rightarrow> Inr (e\<lparr>hasStartFilm := False\<rparr>))"

text \<open>
  The engine as \<^verbatim>\<open>StartLockLess\<close> hands it to the base class at line 102: sampler
  check, parameters, render state, sample splatter (lines 58-100).
\<close>

definition StartLockLess_own ::
  "('f, 's) Collaborators \<Rightarrow> ('f, 's) Primitives \<Rightarrow> ('f, 's) LightCPURenderEngine
     \<Rightarrow> exn + ('f, 's) LightCPURenderEngine" where
  "StartLockLess_own X P e =
     (case CheckSamplersForNoTile X (RenderEngineType2String_GetType X) (cfg (renderConfig e)) of
        Some x \<Rightarrow> Inl x
      | None \<Rightarrow>
          bindE (StartLockLess_parameters X P e) (\<lambda>e1.
          bindE (StartLockLess_restore X e1) (\<lambda>e2.
            Inr (e2\<lparr>sampleSplatter := Some (FilmSampleSplatter (pixelFilter e2))\<rparr>))))"

text \<open>\<^verbatim>\<open>LightCPURenderEngine::StartLockLess\<close>, lines 51-103.\<close>

definition StartLockLess ::
  "('f, 's) Collaborators \<Rightarrow> ('f, 's) Primitives \<Rightarrow> ('f, 's) LightCPURenderEngine
     \<Rightarrow> exn + ('f, 's) LightCPURenderEngine" where
  "StartLockLess X P e = bindE (StartLockLess_own X P e) (CPUNoTileRenderEngine_StartLockLess X)"

subsection \<open>Notions used to state the properties\<close>

text \<open>
  A pixel with its mask value is counted by the first loop of \<^verbatim>\<open>Apply\<close> when the mask is
  set and the luminance is neither \<^verbatim>\<open><= 0.f\<close> nor infinite.
\<close>

definition counted :: "('f, 's) Primitives \<Rightarrow> 's \<times> u_int \<Rightarrow> bool" where
  "counted P pm =
     (snd pm \<noteq> 0 \<and>
      \<not> (f_le P (Spectrum_Y P (fst pm)) (f_lit P 0) \<or> f_isinf P (Spectrum_Y P (fst pm))))"

text \<open>
  The spec's words, not the code: "an average luminance Y over valid pixels (skipping
  non-positive or infinite samples)", read as the sum of the counted luminances divided by
  the number of valid pixels, those whose mask is set.
\<close>

definition average_over_valid_pixels :: "('f, 's) Primitives \<Rightarrow> ('f, 's) Film \<Rightarrow> 'f" where
  "average_over_valid_pixels P fm =
     (let pms = zip (channel_RGB_TONEMAPPED fm) (channel_FRAMEBUFFER_MASK fm)
      in f_div P
           (foldl (f_add P) (f_lit P 0) (map (\<lambda>pm. Spectrum_Y P (fst pm)) (filter (counted P) pms)))
           (f_of_uint P (of_nat (length (filter (\<lambda>pm. snd pm \<noteq> 0) pms)))))"

text \<open>
  The parameters that \<^verbatim>\<open>StartLockLess\<close> resolves for the engine that \<^verbatim>\<open>FromProperties\<close>
  builds from a render configuration, and the same for the configuration whose property
  bag went through \<^verbatim>\<open>ToProperties\<close> first: the spec's
  \<^verbatim>\<open>FromProperties(ToProperties(cfg))\<close>.
\<close>

definition effective_parameters ::
  "('f, 's) Collaborators \<Rightarrow> ('f, 's) Primitives \<Rightarrow> 'f RenderConfig
     \<Rightarrow> exn + 32 word \<times> 32 word \<times> 'f \<times> 'f" where
  "effective_parameters X P rcfg =
     bindE (FromProperties X rcfg) (\<lambda>e.
     bindE (StartLockLess_parameters X P e) (\<lambda>e1.
       Inr (maxPathDepth e1, rrDepth e1, rrImportanceCap e1, sqrtVarianceClampMaxValue e1)))"

definition round_trip_parameters ::
  "('f, 's) Collaborators \<Rightarrow> ('f, 's) Primitives \<Rightarrow> 'f RenderConfig
     \<Rightarrow> exn + 32 word \<times> 32 word \<times> 'f \<times> 'f" where
  "round_trip_parameters X P rcfg =
     bindE (ToProperties X P (cfg rcfg)) (\<lambda>c'. effective_parameters X P (rcfg\<lparr>cfg := c'\<rparr>))"

subsection \<open>Test inputs\<close>

text \<open>
  Exact arithmetic on the reals, with RGB triples as pixels and the luminance weights of
  \<^verbatim>\<open>Spectrum::Y()\<close>. It is one value of the parameter \<open>P\<close>, for inputs on which
  binary32 arithmetic gives the same picture: the numbers below are small integers and
  halves, and what is compared differs by a factor of two, not by a rounding error.
\<close>

definition P_exact :: "(real, real \<times> real \<times> real) Primitives" where
  "P_exact =
     \<lparr>f_lit = of_rat, f_add = (+), f_mul = (*), f_div = (/), f_le = (\<le>),
      f_isinf = (\<lambda>x. False), f_of_uint = (\<lambda>n. real (unat n)), f_powf = (powr), f_Max = max,
      Spectrum_Y = (\<lambda>(r, g, b). 212671 / 1000000 * r + 715160 / 1000000 * g + 72169 / 1000000 * b),
      Spectrum_scale = (\<lambda>a (r, g, b). (a * r, a * g, a * b))\<rparr>"

text \<open>A film of two pixels: a white one that is valid, and one that is masked out.\<close>

definition film_half_masked :: "(real, real \<times> real \<times> real) Film" where
  "film_half_masked =
     \<lparr>width = 2, height = 1, channels = {RGB_TONEMAPPED, FRAMEBUFFER_MASK},
      enabledOverlappedScreenBufferUpdate = False, radianceGroupCount = 1,
      channel_RGB_TONEMAPPED = [(1, 1, 1), (3, 3, 3)],
      channel_FRAMEBUFFER_MASK = [1, 0],
      imagePipeline = None\<rparr>"

text \<open>A film of two pixels: a black one that is valid, and one that is masked out.\<close>

definition film_dark :: "(real, real \<times> real \<times> real) Film" where
  "film_dark =
     \<lparr>width = 1, height = 2, channels = {RGB_TONEMAPPED, FRAMEBUFFER_MASK},
      enabledOverlappedScreenBufferUpdate = False, radianceGroupCount = 1,
      channel_RGB_TONEMAPPED = [(0, 0, 0), (3, 3, 3)],
      channel_FRAMEBUFFER_MASK = [7, 0],
      imagePipeline = Some [OtherPlugin ''GaussianBlur3x3FilterPlugin'', GammaCorrectionPlugin 2]\<rparr>"

text \<open>
  One value of the parameter \<open>X\<close>: a base class that stores the render configuration and
  always constructs and starts, a sampler check that passes, a render-state check that
  compares the tags, base-class and sampler properties of their own (thread count,
  sampler type), and a read through the engine-typed pointer that yields \<open>0\<close>.
\<close>

definition film_test :: "(real, real \<times> real \<times> real) Film" where
  "film_test = film_half_masked\<lparr>channels := {}\<rparr>"

definition X_test :: "(real, real \<times> real \<times> real) Collaborators" where
  "X_test =
     \<lparr>GetObjectTag = ''LIGHTCPU'',
      RenderEngineType2String_GetType = ''LIGHTCPU'',
      CheckSamplersForNoTile = (\<lambda>t c. None),
      CheckEngineTag = (\<lambda>rs tag. if engineTag rs = tag then None
                         else Some (runtime_error ''Wrong engine type in a render state'')),
      CPUNoTileRenderEngine_ctor = (\<lambda>rcfg. Inr
        \<lparr>renderConfig = rcfg, film = film_test, pixelFilter = PixelFilter ''BLACKMANHARRIS'',
         sampleSplatter = None, bootStrapSeed = 131, startRenderState = None,
         hasStartFilm = False, maxPathDepth = 0, rrDepth = 0, rrImportanceCap = 0,
         sqrtVarianceClampMaxValue = 0\<rparr>),
      CPUNoTileRenderEngine_StartLockLess = Inr,
      CPUNoTileRenderEngine_ToProperties = (\<lambda>c. [''native.threads.count'' \<mapsto>
         (case c ''native.threads.count'' of Some v \<Rightarrow> v | None \<Rightarrow> IntVal 4)]),
      CPUNoTileRenderEngine_GetDefaultProps = [''native.threads.count'' \<mapsto> IntVal 4],
      Sampler_ToProperties = (\<lambda>c. [''sampler.type'' \<mapsto>
         (case c ''sampler.type'' of Some v \<Rightarrow> v | None \<Rightarrow> StringVal ''SOBOL'')]),
      Film_Init = (\<lambda>f. f),
      lexical_cast_int = (\<lambda>v. Inl (bad_lexical_cast ''int'')),
      lexical_cast_float = (\<lambda>v. case v of IntVal n \<Rightarrow> Inr (real_of_int (sint n))
                               | _ \<Rightarrow> Inl (bad_lexical_cast ''float'')),
      bootStrapSeed_through_engine_pointer = (\<lambda>st. 0)\<rparr>"

definition rcfg_test :: "CameraType \<Rightarrow> real Properties \<Rightarrow> real RenderConfig" where
  "rcfg_test ct c =
     \<lparr>cfg = c, scene = \<lparr>camera = \<lparr>GetType = ct\<rparr>, lightDefs = \<lparr>GetLightGroupCount = 2\<rparr>\<rparr>\<rparr>"

definition engine_test :: "real Properties \<Rightarrow> LightCPURenderState option
    \<Rightarrow> (real, real \<times> real \<times> real) LightCPURenderEngine" where
  "engine_test c rs =
     \<lparr>renderConfig = rcfg_test PERSPECTIVE c, film = film_test,
      pixelFilter = PixelFilter ''BLACKMANHARRIS'', sampleSplatter = None, bootStrapSeed = 131,
      startRenderState = rs, hasStartFilm = False, maxPathDepth = 0, rrDepth = 0,
      rrImportanceCap = 0, sqrtVarianceClampMaxValue = 0\<rparr>"

text \<open>Three property bags: one with both clamping keys, one with the legacy key only, one with the new key only.\<close>

definition cfg_clamp :: "real Properties" where
  "cfg_clamp = [''path.clamping.variance.maxvalue'' \<mapsto> FloatVal 7,
                ''path.clamping.radiance.maxvalue'' \<mapsto> FloatVal 9,
                ''light.maxdepth'' \<mapsto> IntVal 12]"

definition cfg_legacy :: "real Properties" where
  "cfg_legacy = [''path.clamping.radiance.maxvalue'' \<mapsto> FloatVal 5]"

definition cfg_variance :: "real Properties" where
  "cfg_variance = [''path.clamping.variance.maxvalue'' \<mapsto> FloatVal 5]"

section \<open>Properties\<close>

subsection \<open>The tone-map scale\<close>

lemma GetPlugin_first_gamma:
  "(case GetPlugin ip typeid_GammaCorrectionPlugin of
      Some (GammaCorrectionPlugin g) \<Rightarrow> g | _ \<Rightarrow> d) =
   (case [g. GammaCorrectionPlugin g \<leftarrow> ip] of [] \<Rightarrow> d | g # _ \<Rightarrow> g)"
  by (induction ip) (auto simp: typeid_of_def split: ImagePipelinePlugin.splits)

text \<open>
  Claim C7. For every film and every \<open>Y\<close> (positive or not), \<^verbatim>\<open>CalcLinearToneMapScale\<close>
  returns \<^verbatim>\<open>1.25f / Y * powf(118.f / 255.f, gamma)\<close>, each operation being the one of
  \<^verbatim>\<open>float\<close>, where \<open>gamma\<close> is the member \<^verbatim>\<open>gamma\<close> of the first gamma-correction plugin
  of the film's image pipeline, and \<^verbatim>\<open>2.2f\<close> when the film has no pipeline or the pipeline
  has no such plugin. In particular, with \<open>Y = 2\<close> and a gamma-correction plugin of gamma
  \<open>2.2\<close> the result is \<^verbatim>\<open>1.25f / 2.f * powf(118.f / 255.f, 2.2f)\<close>.
\<close>

theorem CalcLinearToneMapScale_formula:
  "CalcLinearToneMapScale P fm Y =
     f_mul P (f_div P (f_lit P (5 / 4)) Y)
       (f_powf P (f_div P (f_lit P 118) (f_lit P 255))
          (case imagePipeline fm of
             None \<Rightarrow> f_lit P (11 / 5)
           | Some ip \<Rightarrow>
               (case [g. GammaCorrectionPlugin g \<leftarrow> ip] of
                  [] \<Rightarrow> f_lit P (11 / 5)
                | g # _ \<Rightarrow> g)))
   \<and> CalcLinearToneMapScale P
       (fm\<lparr>imagePipeline := Some [GammaCorrectionPlugin (f_lit P (11 / 5))]\<rparr>) (f_lit P 2) =
     f_mul P (f_div P (f_lit P (5 / 4)) (f_lit P 2))
       (f_powf P (f_div P (f_lit P 118) (f_lit P 255)) (f_lit P (11 / 5)))"
  by (simp add: CalcLinearToneMapScale_def GetGammaCorrectionValue_def GetPlugin_first_gamma
      typeid_of_def split: option.splits)

subsection \<open>The two loops of Apply\<close>

lemma Apply_sum_foldl:
  "n \<le> length (channel_RGB_TONEMAPPED fm) \<Longrightarrow> n \<le> length (channel_FRAMEBUFFER_MASK fm) \<Longrightarrow> i \<le> n \<Longrightarrow>
   Apply_sum P fm i n Y =
     foldl (f_add P) Y (map (\<lambda>pm. Spectrum_Y P (fst pm))
        (filter (counted P) (drop i (take n (zip (channel_RGB_TONEMAPPED fm) (channel_FRAMEBUFFER_MASK fm))))))"
proof (induction P fm i n Y rule: Apply_sum.induct)
  case (1 P fm i n Y)
  show ?case
  proof (cases "i < n")
    case False
    with "1.prems" show ?thesis by (subst Apply_sum.simps) simp
  next
    case True
    let ?px = "channel_RGB_TONEMAPPED fm ! i"
    let ?m = "channel_FRAMEBUFFER_MASK fm ! i"
    let ?z = "take n (zip (channel_RGB_TONEMAPPED fm) (channel_FRAMEBUFFER_MASK fm))"
    have len: "i < length ?z" using True "1.prems" by simp
    have d: "drop i ?z = (?px, ?m) # drop (Suc i) ?z"
      using len True "1.prems" by (simp add: Cons_nth_drop_Suc [symmetric])
    have le: "i + 1 \<le> n" using True by simp
    show ?thesis
    proof (cases "counted P (?px, ?m)")
      case k: True
      then have c: "?m \<noteq> 0" "\<not> (f_le P (Spectrum_Y P ?px) (f_lit P 0) \<or> f_isinf P (Spectrum_Y P ?px))"
        by (simp_all add: counted_def)
      have "Apply_sum P fm i n Y = Apply_sum P fm (i + 1) n (f_add P Y (Spectrum_Y P ?px))"
        using True c by (subst Apply_sum.simps) simp
      also have "\<dots> = foldl (f_add P) (f_add P Y (Spectrum_Y P ?px)) (map (\<lambda>pm. Spectrum_Y P (fst pm))
          (filter (counted P) (drop (i + 1) ?z)))"
        using "1.IH"(2) [OF True c(1) c(2) "1.prems"(1,2) le] .
      finally show ?thesis using d k by simp
    next
      case k: False
      have "Apply_sum P fm i n Y = Apply_sum P fm (i + 1) n Y"
        using True k by (subst Apply_sum.simps) (auto simp: counted_def)
      also have "\<dots> = foldl (f_add P) Y (map (\<lambda>pm. Spectrum_Y P (fst pm)) (filter (counted P) (drop (i + 1) ?z)))"
      proof (cases "?m \<noteq> 0")
        case m: True
        with k have s: "f_le P (Spectrum_Y P ?px) (f_lit P 0) \<or> f_isinf P (Spectrum_Y P ?px)"
          by (simp add: counted_def)
        show ?thesis using "1.IH"(1) [OF True m s "1.prems"(1,2) le] .
      next
        case m: False
        show ?thesis using "1.IH"(3) [OF True m "1.prems"(1,2) le] .
      qed
      finally show ?thesis using d k by simp
    qed
  qed
qed

lemma Apply_scale_length:
  "length (Apply_scale P scale maskbuf i n pixels) = length pixels"
  by (induction P scale maskbuf i n pixels rule: Apply_scale.induct)
     (subst Apply_scale.simps, simp)

lemma Apply_scale_nth:
  "j < length pixels \<Longrightarrow>
   Apply_scale P scale maskbuf i n pixels ! j =
     (if i \<le> j \<and> j < n \<and> maskbuf ! j \<noteq> 0 then Spectrum_scale P scale (pixels ! j) else pixels ! j)"
proof (induction P scale maskbuf i n pixels rule: Apply_scale.induct)
  case (1 P scale maskbuf i n pixels)
  show ?case
  proof (cases "i < n")
    case False
    then show ?thesis by (subst Apply_scale.simps) auto
  next
    case True
    let ?px = "if maskbuf ! i \<noteq> 0 then pixels[i := Spectrum_scale P scale (pixels ! i)] else pixels"
    have l: "length ?px = length pixels" by simp
    have "Apply_scale P scale maskbuf i n pixels ! j = Apply_scale P scale maskbuf (i + 1) n ?px ! j"
      using True by (subst Apply_scale.simps) simp
    also have "\<dots> = (if i + 1 \<le> j \<and> j < n \<and> maskbuf ! j \<noteq> 0 then Spectrum_scale P scale (?px ! j) else ?px ! j)"
      using "1.IH" [OF True] "1.prems" l by simp
    also have "\<dots> = (if i \<le> j \<and> j < n \<and> maskbuf ! j \<noteq> 0 then Spectrum_scale P scale (pixels ! j) else pixels ! j)"
      using True "1.prems" by (cases "i = j") (auto simp: nth_list_update)
    finally show ?thesis .
  qed
qed

lemma Apply_scale_map:
  assumes "length pixels = n" "length maskbuf = n"
  shows "Apply_scale P scale maskbuf 0 n pixels =
     map (\<lambda>(p, m). if m \<noteq> 0 then Spectrum_scale P scale p else p) (zip pixels maskbuf)"
  using assms by (intro nth_equalityI) (simp_all add: Apply_scale_length Apply_scale_nth)

lemma Apply_Y_sum:
  assumes "wf_film fm"
  shows "Apply_Y P fm =
     f_div P
       (foldl (f_add P) (f_lit P 0)
          (map (\<lambda>pm. Spectrum_Y P (fst pm))
             (filter (counted P) (zip (channel_RGB_TONEMAPPED fm) (channel_FRAMEBUFFER_MASK fm)))))
       (f_of_uint P (width fm * height fm))"
  using assms by (simp add: Apply_Y_def wf_film_def Apply_sum_foldl)

text \<open>
  Claim C8, as amended. On a film whose buffers hold \<^verbatim>\<open>width * height\<close> pixels, the \<open>Y\<close>
  that \<^verbatim>\<open>Apply\<close> computes is the \<^verbatim>\<open>float\<close> sum, from \<^verbatim>\<open>0.f\<close> and in index order, of the
  luminances of the counted pixels (mask set, luminance neither \<^verbatim>\<open><= 0.f\<close> nor infinite),
  divided by \<^verbatim>\<open>pixelCount\<close>, the number of all pixels of the film. Unless \<^verbatim>\<open>Y <= 0.f\<close>,
  \<^verbatim>\<open>Apply\<close> replaces every pixel whose mask is set by \<^verbatim>\<open>scale * pixel\<close>, with
  \<^verbatim>\<open>scale = CalcLinearToneMapScale(film, Y)\<close>, and leaves every other pixel and every other
  member of the film as it was.
\<close>

theorem Apply_scales_valid_pixels:
  assumes "wf_film fm"
  shows "Apply_Y P fm =
     f_div P
       (foldl (f_add P) (f_lit P 0)
          (map (\<lambda>pm. Spectrum_Y P (fst pm))
             (filter (counted P) (zip (channel_RGB_TONEMAPPED fm) (channel_FRAMEBUFFER_MASK fm)))))
       (f_of_uint P (width fm * height fm))
   \<and> (\<not> f_le P (Apply_Y P fm) (f_lit P 0) \<longrightarrow>
        Apply P fm = fm\<lparr>channel_RGB_TONEMAPPED :=
          map (\<lambda>(p, m). if m \<noteq> 0
                 then Spectrum_scale P (CalcLinearToneMapScale P fm (Apply_Y P fm)) p else p)
              (zip (channel_RGB_TONEMAPPED fm) (channel_FRAMEBUFFER_MASK fm))\<rparr>)"
  using assms
  by (simp add: Apply_Y_sum [OF assms, symmetric] Apply_def Apply_derived_scale_def wf_film_def Apply_scale_map)

theorem Apply_scales_valid_pixels_witness:
  "wf_film film_half_masked \<and> \<not> f_le P_exact (Apply_Y P_exact film_half_masked) (f_lit P_exact 0)
   \<and> Apply_Y P_exact film_half_masked = 1 / 2
   \<and> channel_RGB_TONEMAPPED (Apply P_exact film_half_masked) =
       [Spectrum_scale P_exact (CalcLinearToneMapScale P_exact film_half_masked (1 / 2)) (1, 1, 1), (3, 3, 3)]"
proof -
  have w: "wf_film film_half_masked"
    by (simp add: wf_film_def film_half_masked_def)
  have y: "Apply_Y P_exact film_half_masked = 1 / 2"
    using Apply_scales_valid_pixels [OF w, of P_exact]
    by (simp add: film_half_masked_def P_exact_def counted_def)
  have p: "\<not> f_le P_exact (Apply_Y P_exact film_half_masked) (f_lit P_exact 0)"
    by (simp add: y) (simp add: P_exact_def)
  have c: "channel_RGB_TONEMAPPED film_half_masked = [(1, 1, 1), (3, 3, 3)]"
    "channel_FRAMEBUFFER_MASK film_half_masked = [1, 0]"
    by (simp_all add: film_half_masked_def)
  from Apply_scales_valid_pixels [OF w, of P_exact] p
  have "Apply P_exact film_half_masked = film_half_masked\<lparr>channel_RGB_TONEMAPPED :=
          map (\<lambda>(p, m). if m \<noteq> 0
                 then Spectrum_scale P_exact
                   (CalcLinearToneMapScale P_exact film_half_masked (Apply_Y P_exact film_half_masked)) p
                 else p)
              (zip (channel_RGB_TONEMAPPED film_half_masked) (channel_FRAMEBUFFER_MASK film_half_masked))\<rparr>"
    by blast
  then have "channel_RGB_TONEMAPPED (Apply P_exact film_half_masked) =
      [Spectrum_scale P_exact (CalcLinearToneMapScale P_exact film_half_masked (1 / 2)) (1, 1, 1), (3, 3, 3)]"
    by (simp add: c y)
  with w p y show ?thesis by blast
qed

text \<open>
  Claim C8 as stated fails: \<open>Y\<close> is not the average over the valid pixels. On the film of
  one valid white pixel and one masked-out pixel the valid pixels have average luminance
  \<open>1\<close> (one valid pixel, which is counted), and the code computes \<open>1 / 2\<close>: it divides
  the sum by the two pixels of the film.
\<close>

theorem Apply_Y_average_counterexample:
  "Apply_Y P_exact film_half_masked = 1 / 2 \<and>
   average_over_valid_pixels P_exact film_half_masked = 1 \<and>
   Apply_Y P_exact film_half_masked \<noteq> average_over_valid_pixels P_exact film_half_masked"
proof -
  have a: "Apply_Y P_exact film_half_masked = 1 / 2"
    by (simp add: Apply_Y_def film_half_masked_def P_exact_def Apply_sum.simps)
  have b: "average_over_valid_pixels P_exact film_half_masked = 1"
    by (simp add: average_over_valid_pixels_def film_half_masked_def P_exact_def counted_def)
  show ?thesis by (simp add: a b)
qed


lemma Apply_scale_all_masked:
  assumes "wf_film fm" "\<forall>pm \<in> set (zip (channel_RGB_TONEMAPPED fm) (channel_FRAMEBUFFER_MASK fm)). snd pm = 0"
  shows "Apply_scale P scale (channel_FRAMEBUFFER_MASK fm) 0 (unat (width fm * height fm))
           (channel_RGB_TONEMAPPED fm) = channel_RGB_TONEMAPPED fm"
proof -
  have "map (\<lambda>(p, m). if m \<noteq> 0 then Spectrum_scale P scale p else p)
          (zip (channel_RGB_TONEMAPPED fm) (channel_FRAMEBUFFER_MASK fm)) =
        map fst (zip (channel_RGB_TONEMAPPED fm) (channel_FRAMEBUFFER_MASK fm))"
    using assms(2) by (intro map_cong) auto
  moreover have "map fst (zip (channel_RGB_TONEMAPPED fm) (channel_FRAMEBUFFER_MASK fm)) =
        channel_RGB_TONEMAPPED fm"
    using assms(1) by (simp add: wf_film_def)
  moreover have "Apply_scale P scale (channel_FRAMEBUFFER_MASK fm) 0 (unat (width fm * height fm))
           (channel_RGB_TONEMAPPED fm) =
        map (\<lambda>(p, m). if m \<noteq> 0 then Spectrum_scale P scale p else p)
          (zip (channel_RGB_TONEMAPPED fm) (channel_FRAMEBUFFER_MASK fm))"
    using assms(1) by (intro Apply_scale_map) (simp_all add: wf_film_def)
  ultimately show ?thesis by simp
qed

text \<open>
  Claim C10. On a film whose buffers hold \<^verbatim>\<open>width * height\<close> pixels: when the computed
  \<open>Y\<close> satisfies \<^verbatim>\<open>Y <= 0.f\<close>, \<^verbatim>\<open>Apply\<close> derives no scale and returns the film unchanged; a
  scale is derived only from a \<open>Y\<close> that is not \<^verbatim>\<open><= 0.f\<close>. When every pixel is masked
  out, or has a luminance that is \<^verbatim>\<open><= 0.f\<close> or infinite, \<open>Y\<close> is \<^verbatim>\<open>0.f / pixelCount\<close>
  (which is \<^verbatim>\<open>0.f\<close>, so \<^verbatim>\<open><= 0.f\<close>, for every film that has a pixel); and when every pixel is
  masked out the film is unchanged whatever \<open>Y\<close> is.
\<close>

theorem Apply_returns_early:
  assumes "wf_film fm"
  shows "(f_le P (Apply_Y P fm) (f_lit P 0) \<longrightarrow>
            Apply_derived_scale P fm = None \<and> Apply P fm = fm)
   \<and> (\<forall>s. Apply_derived_scale P fm = Some s \<longrightarrow> \<not> f_le P (Apply_Y P fm) (f_lit P 0))
   \<and> ((\<forall>pm \<in> set (zip (channel_RGB_TONEMAPPED fm) (channel_FRAMEBUFFER_MASK fm)).
          snd pm = 0 \<or> f_le P (Spectrum_Y P (fst pm)) (f_lit P 0) \<or> f_isinf P (Spectrum_Y P (fst pm))) \<longrightarrow>
        Apply_Y P fm = f_div P (f_lit P 0) (f_of_uint P (width fm * height fm)))
   \<and> ((\<forall>pm \<in> set (zip (channel_RGB_TONEMAPPED fm) (channel_FRAMEBUFFER_MASK fm)). snd pm = 0) \<longrightarrow>
        Apply P fm = fm)"
proof (intro conjI impI allI)
  assume "f_le P (Apply_Y P fm) (f_lit P 0)"
  then show "Apply_derived_scale P fm = None" by (simp add: Apply_derived_scale_def)
  then show "Apply P fm = fm" by (simp add: Apply_def)
next
  fix s assume "Apply_derived_scale P fm = Some s"
  then show "\<not> f_le P (Apply_Y P fm) (f_lit P 0)"
    by (simp add: Apply_derived_scale_def split: if_splits)
next
  assume "\<forall>pm \<in> set (zip (channel_RGB_TONEMAPPED fm) (channel_FRAMEBUFFER_MASK fm)).
          snd pm = 0 \<or> f_le P (Spectrum_Y P (fst pm)) (f_lit P 0) \<or> f_isinf P (Spectrum_Y P (fst pm))"
  then have "filter (counted P) (zip (channel_RGB_TONEMAPPED fm) (channel_FRAMEBUFFER_MASK fm)) = []"
    by (auto simp: filter_empty_conv counted_def)
  then show "Apply_Y P fm = f_div P (f_lit P 0) (f_of_uint P (width fm * height fm))"
    by (simp add: Apply_Y_sum [OF assms])
next
  assume a: "\<forall>pm \<in> set (zip (channel_RGB_TONEMAPPED fm) (channel_FRAMEBUFFER_MASK fm)). snd pm = 0"
  have "Apply_scale P scale (channel_FRAMEBUFFER_MASK fm) 0 (unat (width fm * height fm))
           (channel_RGB_TONEMAPPED fm) = channel_RGB_TONEMAPPED fm" for scale
    by (rule Apply_scale_all_masked [OF assms a])
  then show "Apply P fm = fm"
    by (simp add: Apply_def split: option.splits)
qed

theorem Apply_returns_early_witness:
  "wf_film film_dark \<and> f_le P_exact (Apply_Y P_exact film_dark) (f_lit P_exact 0)
   \<and> Apply_Y P_exact film_dark = 0
   \<and> Apply_derived_scale P_exact film_dark = None \<and> Apply P_exact film_dark = film_dark"
proof -
  have w: "wf_film film_dark"
    by (simp add: wf_film_def film_dark_def)
  have c: "channel_RGB_TONEMAPPED film_dark = [(0, 0, 0), (3, 3, 3)]"
    "channel_FRAMEBUFFER_MASK film_dark = [7, 0]" "width film_dark * height film_dark = 2"
    by (simp_all add: film_dark_def)
  have h: "\<forall>pm \<in> set (zip (channel_RGB_TONEMAPPED film_dark) (channel_FRAMEBUFFER_MASK film_dark)).
          snd pm = 0 \<or> f_le P_exact (Spectrum_Y P_exact (fst pm)) (f_lit P_exact 0)
            \<or> f_isinf P_exact (Spectrum_Y P_exact (fst pm))"
    by (simp add: c) (simp add: P_exact_def)
  from Apply_returns_early [OF w, of P_exact] h
  have "Apply_Y P_exact film_dark = f_div P_exact (f_lit P_exact 0) (f_of_uint P_exact (width film_dark * height film_dark))"
    by blast
  then have y: "Apply_Y P_exact film_dark = 0"
    by (simp add: c) (simp add: P_exact_def)
  have l: "f_le P_exact (Apply_Y P_exact film_dark) (f_lit P_exact 0)"
    by (simp add: y) (simp add: P_exact_def)
  from Apply_returns_early [OF w, of P_exact] l
  have "Apply_derived_scale P_exact film_dark = None \<and> Apply P_exact film_dark = film_dark"
    by blast
  with w l y show ?thesis by blast
qed

subsection \<open>The property bag and the rendering parameters\<close>

lemma GetDefaultProps_keys:
  "GetDefaultProps X P ''renderengine.type'' = Some (StringVal (GetObjectTag X))"
  "GetDefaultProps X P ''light.maxdepth'' = Some (IntVal 5)"
  "GetDefaultProps X P ''light.russianroulette.depth'' = Some (IntVal 3)"
  "GetDefaultProps X P ''light.russianroulette.cap'' = Some (FloatVal (f_lit P (1 / 2)))"
  "GetDefaultProps X P ''path.clamping.variance.maxvalue'' = Some (FloatVal (f_lit P 0))"
  by (simp_all add: GetDefaultProps_def Set_Property_def Set_Properties_def)

lemma Get_cfg_keys:
  "Get_cfg X P c ''renderengine.type'' =
     Inr (''renderengine.type'', case c ''renderengine.type'' of Some v \<Rightarrow> v | None \<Rightarrow> StringVal (GetObjectTag X))"
  "Get_cfg X P c ''light.maxdepth'' =
     Inr (''light.maxdepth'', case c ''light.maxdepth'' of Some v \<Rightarrow> v | None \<Rightarrow> IntVal 5)"
  "Get_cfg X P c ''light.russianroulette.depth'' =
     Inr (''light.russianroulette.depth'', case c ''light.russianroulette.depth'' of Some v \<Rightarrow> v | None \<Rightarrow> IntVal 3)"
  "Get_cfg X P c ''light.russianroulette.cap'' =
     Inr (''light.russianroulette.cap'', case c ''light.russianroulette.cap'' of Some v \<Rightarrow> v | None \<Rightarrow> FloatVal (f_lit P (1 / 2)))"
  "Get_cfg X P c ''path.clamping.variance.maxvalue'' =
     Inr (''path.clamping.variance.maxvalue'', case c ''path.clamping.variance.maxvalue'' of Some v \<Rightarrow> v | None \<Rightarrow> FloatVal (f_lit P 0))"
  by (simp_all add: Get_cfg_def Get_named_def Get_or_def bindE_def GetDefaultProps_keys split: option.splits)

lemma ToProperties_value:
  "ToProperties X P c =
     Inr ((CPUNoTileRenderEngine_ToProperties X c)
            (''renderengine.type'' \<mapsto> (case c ''renderengine.type'' of Some v \<Rightarrow> v | None \<Rightarrow> StringVal (GetObjectTag X)),
             ''light.maxdepth'' \<mapsto> (case c ''light.maxdepth'' of Some v \<Rightarrow> v | None \<Rightarrow> IntVal 5),
             ''light.russianroulette.depth'' \<mapsto> (case c ''light.russianroulette.depth'' of Some v \<Rightarrow> v | None \<Rightarrow> IntVal 3),
             ''light.russianroulette.cap'' \<mapsto> (case c ''light.russianroulette.cap'' of Some v \<Rightarrow> v | None \<Rightarrow> FloatVal (f_lit P (1 / 2))))
          ++ Sampler_ToProperties X c)"
  by (simp add: ToProperties_def Get_cfg_keys bindE_def Set_Property_def Set_Properties_def)

lemma Get_int_IntVal [simp]: "Get_int X (k, IntVal n) = Inr n"
  by (simp add: Get_int_def)

lemma Get_float_FloatVal [simp]: "Get_float X (k, FloatVal x) = Inr x"
  by (simp add: Get_float_def)

lemma StartLockLess_parameters_Inr:
  assumes "StartLockLess_parameters X P e = Inr e1"
  shows "\<exists>v1 v2 v3 v5.
     Get_int X (''light.maxdepth'',
        case cfg (renderConfig e) ''light.maxdepth'' of Some w \<Rightarrow> w | None \<Rightarrow> IntVal 5) = Inr v1 \<and>
     Get_int X (''light.russianroulette.depth'',
        case cfg (renderConfig e) ''light.russianroulette.depth'' of Some w \<Rightarrow> w | None \<Rightarrow> IntVal 3) = Inr v2 \<and>
     Get_float X (''light.russianroulette.cap'',
        case cfg (renderConfig e) ''light.russianroulette.cap'' of Some w \<Rightarrow> w
        | None \<Rightarrow> FloatVal (f_lit P (1 / 2))) = Inr v3 \<and>
     (case cfg (renderConfig e) ''path.clamping.variance.maxvalue'' of
        Some w \<Rightarrow> Get_float X (''path.clamping.variance.maxvalue'', w) = Inr v5
      | None \<Rightarrow>
          (case cfg (renderConfig e) ''path.clamping.radiance.maxvalue'' of
             Some w \<Rightarrow> Get_float X (''path.clamping.radiance.maxvalue'', w) = Inr v5
           | None \<Rightarrow> v5 = f_lit P 0)) \<and>
     e1 = e\<lparr>maxPathDepth := v1, rrDepth := v2, rrImportanceCap := v3,
            sqrtVarianceClampMaxValue := f_Max P (f_lit P 0) v5\<rparr>"
  using assms
  by (auto simp: StartLockLess_parameters_def Let_def bindE_def Get_cfg_keys Get_or_def IsDefined_def
      split: sum.splits if_splits option.splits)

lemma StartLockLess_parameters_typed:
  assumes "cfg (renderConfig e) = c"
    and "(case c ''light.maxdepth'' of Some w \<Rightarrow> w | None \<Rightarrow> IntVal 5) = IntVal v1"
    and "(case c ''light.russianroulette.depth'' of Some w \<Rightarrow> w | None \<Rightarrow> IntVal 3) = IntVal v2"
    and "(case c ''light.russianroulette.cap'' of Some w \<Rightarrow> w | None \<Rightarrow> FloatVal (f_lit P (1 / 2))) =
           FloatVal v3"
    and "(case c ''path.clamping.radiance.maxvalue'' of Some w \<Rightarrow> w | None \<Rightarrow> FloatVal (f_lit P 0)) =
           FloatVal v4"
    and "(case c ''path.clamping.variance.maxvalue'' of Some w \<Rightarrow> w | None \<Rightarrow> FloatVal v4) =
           FloatVal v5"
  shows "StartLockLess_parameters X P e =
     Inr (e\<lparr>maxPathDepth := v1, rrDepth := v2, rrImportanceCap := v3,
            sqrtVarianceClampMaxValue := f_Max P (f_lit P 0) v5\<rparr>)"
proof -
  have l: "Get_or c (''path.clamping.radiance.maxvalue'', FloatVal (f_lit P 0)) =
      (''path.clamping.radiance.maxvalue'', FloatVal v4)"
    using assms(5) by (simp add: Get_or_def split: option.splits)
  show ?thesis
  proof (cases "c ''path.clamping.variance.maxvalue''")
    case None
    with assms(6) have "v5 = v4" by simp
    with None show ?thesis
      by (simp add: StartLockLess_parameters_def Let_def assms(1) l Get_cfg_keys bindE_def
          assms(2,3,4) IsDefined_def)
  next
    case (Some w)
    with assms(6) have "w = FloatVal v5" by simp
    with Some show ?thesis
      by (simp add: StartLockLess_parameters_def Let_def assms(1) l Get_cfg_keys bindE_def
          assms(2,3,4) IsDefined_def)
  qed
qed

lemma StartLockLess_parameters_frame:
  assumes "StartLockLess_parameters X P e = Inr e1"
  shows "startRenderState e1 = startRenderState e \<and> bootStrapSeed e1 = bootStrapSeed e"
  using StartLockLess_parameters_Inr [OF assms] by auto

lemma StartLockLess_restore_Inr:
  assumes "StartLockLess_restore X e1 = Inr e2"
  shows "maxPathDepth e2 = maxPathDepth e1 \<and> rrDepth e2 = rrDepth e1 \<and>
     rrImportanceCap e2 = rrImportanceCap e1 \<and>
     sqrtVarianceClampMaxValue e2 = sqrtVarianceClampMaxValue e1 \<and>
     renderConfig e2 = renderConfig e1 \<and> pixelFilter e2 = pixelFilter e1"
  using assms
  by (auto simp: StartLockLess_restore_def SetSeed_def Let_def split: option.splits)

lemma StartLockLess_own_Inr:
  assumes "StartLockLess_own X P e = Inr e'"
  shows "\<exists>e1 e2. StartLockLess_parameters X P e = Inr e1 \<and> StartLockLess_restore X e1 = Inr e2 \<and>
     e' = e2\<lparr>sampleSplatter := Some (FilmSampleSplatter (pixelFilter e2))\<rparr>"
  using assms
  by (auto simp: StartLockLess_own_def bindE_def split: option.splits sum.splits)

subsection \<open>Evaluation on the test inputs\<close>

lemma P_exact_literals:
  "f_lit P_exact 0 = 0" "f_lit P_exact (1 / 2) = 1 / 2" "f_Max P_exact 0 x = max 0 x"
  by (simp_all add: P_exact_def of_rat_divide)

lemma X_test_ToProperties:
  "CPUNoTileRenderEngine_ToProperties X_test c = [''native.threads.count'' \<mapsto>
         (case c ''native.threads.count'' of Some v \<Rightarrow> v | None \<Rightarrow> IntVal 4)]"
  "Sampler_ToProperties X_test c = [''sampler.type'' \<mapsto>
         (case c ''sampler.type'' of Some v \<Rightarrow> v | None \<Rightarrow> StringVal ''SOBOL'')]"
  by (simp_all add: X_test_def)

lemma FromProperties_test:
  "FromProperties X_test (rcfg_test PERSPECTIVE c) = Inr (engine_test c None)"
  by (simp add: FromProperties_def LightCPURenderEngine_ctor_def bindE_def X_test_def
      engine_test_def rcfg_test_def)

lemma cfg_clamp_keys:
  "cfg_clamp ''light.maxdepth'' = Some (IntVal 12)"
  "cfg_clamp ''light.russianroulette.depth'' = None"
  "cfg_clamp ''light.russianroulette.cap'' = None"
  "cfg_clamp ''path.clamping.variance.maxvalue'' = Some (FloatVal 7)"
  "cfg_clamp ''path.clamping.radiance.maxvalue'' = Some (FloatVal 9)"
  by (simp_all add: cfg_clamp_def)

lemma cfg_legacy_keys:
  "cfg_legacy ''light.maxdepth'' = None"
  "cfg_legacy ''light.russianroulette.depth'' = None"
  "cfg_legacy ''light.russianroulette.cap'' = None"
  "cfg_legacy ''path.clamping.variance.maxvalue'' = None"
  "cfg_legacy ''path.clamping.radiance.maxvalue'' = Some (FloatVal 5)"
  by (simp_all add: cfg_legacy_def)

lemma cfg_variance_keys:
  "cfg_variance ''light.maxdepth'' = None"
  "cfg_variance ''light.russianroulette.depth'' = None"
  "cfg_variance ''light.russianroulette.cap'' = None"
  "cfg_variance ''path.clamping.variance.maxvalue'' = Some (FloatVal 5)"
  "cfg_variance ''path.clamping.radiance.maxvalue'' = None"
  by (simp_all add: cfg_variance_def)

lemma parameters_clamp:
  "StartLockLess_parameters X_test P_exact (engine_test cfg_clamp rs) =
     Inr ((engine_test cfg_clamp rs)\<lparr>maxPathDepth := 12, rrDepth := 3, rrImportanceCap := 1 / 2,
        sqrtVarianceClampMaxValue := 7\<rparr>)"
proof -
  have c: "cfg (renderConfig (engine_test cfg_clamp rs)) = cfg_clamp"
    by (simp add: engine_test_def rcfg_test_def)
  have l: "f_lit P_exact (1 / 2) = 1 / 2" "f_lit P_exact 0 = 0" "f_Max P_exact 0 7 = 7"
    by (simp_all add: P_exact_def of_rat_divide)
  show ?thesis
    by (simp add: StartLockLess_parameters_def c cfg_clamp_keys Get_cfg_keys Get_or_def
        IsDefined_def bindE_def l)
qed

lemma own_clamp:
  "StartLockLess_own X_test P_exact (engine_test cfg_clamp None) =
     Inr ((engine_test cfg_clamp None)\<lparr>maxPathDepth := 12, rrDepth := 3, rrImportanceCap := 1 / 2,
        sqrtVarianceClampMaxValue := 7, hasStartFilm := False,
        sampleSplatter := Some (FilmSampleSplatter (PixelFilter ''BLACKMANHARRIS''))\<rparr>)"
proof -
  have "CheckSamplersForNoTile X_test t c = None" for t c
    by (simp add: X_test_def)
  then show ?thesis
    by (simp add: StartLockLess_own_def parameters_clamp StartLockLess_restore_def bindE_def)
       (simp add: engine_test_def)
qed

lemma effective_parameters_test:
  assumes "(case c ''light.maxdepth'' of Some w \<Rightarrow> w | None \<Rightarrow> IntVal 5) = IntVal v1"
    and "(case c ''light.russianroulette.depth'' of Some w \<Rightarrow> w | None \<Rightarrow> IntVal 3) = IntVal v2"
    and "(case c ''light.russianroulette.cap'' of Some w \<Rightarrow> w | None \<Rightarrow> FloatVal (f_lit P_exact (1 / 2))) =
           FloatVal v3"
    and "(case c ''path.clamping.radiance.maxvalue'' of Some w \<Rightarrow> w | None \<Rightarrow> FloatVal (f_lit P_exact 0)) =
           FloatVal v4"
    and "(case c ''path.clamping.variance.maxvalue'' of Some w \<Rightarrow> w | None \<Rightarrow> FloatVal v4) = FloatVal v5"
  shows "effective_parameters X_test P_exact (rcfg_test PERSPECTIVE c) = Inr (v1, v2, v3, max 0 v5)"
proof -
  have c: "cfg (renderConfig (engine_test c None)) = c"
    by (simp add: engine_test_def rcfg_test_def)
  show ?thesis
    by (simp add: effective_parameters_def FromProperties_test bindE_def
        StartLockLess_parameters_typed [OF c assms] P_exact_literals)
qed

lemma ToProperties_light_keys:
  assumes "Sampler_ToProperties X c ''light.maxdepth'' = None"
    and "Sampler_ToProperties X c ''light.russianroulette.depth'' = None"
    and "Sampler_ToProperties X c ''light.russianroulette.cap'' = None"
    and "ToProperties X P c = Inr c'"
  shows "c' ''light.maxdepth'' = Some (case c ''light.maxdepth'' of Some v \<Rightarrow> v | None \<Rightarrow> IntVal 5)"
    and "c' ''light.russianroulette.depth'' =
           Some (case c ''light.russianroulette.depth'' of Some v \<Rightarrow> v | None \<Rightarrow> IntVal 3)"
    and "c' ''light.russianroulette.cap'' =
           Some (case c ''light.russianroulette.cap'' of Some v \<Rightarrow> v | None \<Rightarrow> FloatVal (f_lit P (1 / 2)))"
  using assms by (auto simp: ToProperties_value map_add_def)

lemma ToProperties_test_clamping_keys:
  assumes "ToProperties X_test P_exact c = Inr c'"
  shows "c' ''path.clamping.variance.maxvalue'' = None"
    and "c' ''path.clamping.radiance.maxvalue'' = None"
  using assms by (auto simp: ToProperties_value X_test_ToProperties map_add_def)

lemma round_trip_parameters_test:
  assumes "(case c ''light.maxdepth'' of Some w \<Rightarrow> w | None \<Rightarrow> IntVal 5) = IntVal v1"
    and "(case c ''light.russianroulette.depth'' of Some w \<Rightarrow> w | None \<Rightarrow> IntVal 3) = IntVal v2"
    and "(case c ''light.russianroulette.cap'' of Some w \<Rightarrow> w | None \<Rightarrow> FloatVal (f_lit P_exact (1 / 2))) =
           FloatVal v3"
  shows "round_trip_parameters X_test P_exact (rcfg_test PERSPECTIVE c) = Inr (v1, v2, v3, 0)"
proof -
  obtain c' where c': "ToProperties X_test P_exact c = Inr c'"
    by (simp add: ToProperties_value)
  have s: "Sampler_ToProperties X_test c ''light.maxdepth'' = None"
    "Sampler_ToProperties X_test c ''light.russianroulette.depth'' = None"
    "Sampler_ToProperties X_test c ''light.russianroulette.cap'' = None"
    by (simp_all add: X_test_ToProperties)
  note k = ToProperties_light_keys [OF s c'] ToProperties_test_clamping_keys [OF c']
  have r: "(rcfg_test PERSPECTIVE c)\<lparr>cfg := c'\<rparr> = rcfg_test PERSPECTIVE c'" "cfg (rcfg_test PERSPECTIVE c) = c"
    by (simp_all add: rcfg_test_def)
  have "effective_parameters X_test P_exact (rcfg_test PERSPECTIVE c') = Inr (v1, v2, v3, max 0 0)"
    by (rule effective_parameters_test [where ?v4.0 = 0]) (simp_all add: k assms P_exact_literals)
  then show ?thesis
    by (simp add: round_trip_parameters_def r c' bindE_def)
qed

subsection \<open>Construction\<close>

text \<open>
  Claim C3. The constructor of the engine fails whenever the camera is a stereo camera,
  and with the exception \<^verbatim>\<open>runtime_error("Light render engine doesn't support stereo
  camera")\<close> when the base-class constructor has returned; the failed construction yields
  no engine. With any other camera the constructor returns the engine the base-class
  constructor built, with a null sample splatter: it adds no failure of its own.
  \<^verbatim>\<open>FromProperties\<close> is this constructor.
\<close>

theorem LightCPURenderEngine_ctor_stereo:
  "(GetType (camera (scene rcfg)) = STEREO \<longrightarrow>
      (\<exists>x. LightCPURenderEngine_ctor X rcfg = Inl x) \<and>
      (\<forall>base. CPUNoTileRenderEngine_ctor X rcfg = Inr base \<longrightarrow>
         LightCPURenderEngine_ctor X rcfg =
           Inl (runtime_error ''Light render engine doesn't support stereo camera'')))
   \<and> (GetType (camera (scene rcfg)) \<noteq> STEREO \<longrightarrow>
      (\<forall>base. CPUNoTileRenderEngine_ctor X rcfg = Inr base \<longrightarrow>
         LightCPURenderEngine_ctor X rcfg = Inr (base\<lparr>sampleSplatter := None\<rparr>)))
   \<and> FromProperties X rcfg = LightCPURenderEngine_ctor X rcfg"
  by (auto simp: LightCPURenderEngine_ctor_def FromProperties_def bindE_def Let_def split: sum.splits)

theorem LightCPURenderEngine_ctor_stereo_witness:
  "LightCPURenderEngine_ctor X_test (rcfg_test STEREO cfg_clamp) =
     Inl (runtime_error ''Light render engine doesn't support stereo camera'')
   \<and> LightCPURenderEngine_ctor X_test (rcfg_test ORTHOGRAPHIC cfg_clamp) =
     Inr \<lparr>renderConfig = rcfg_test ORTHOGRAPHIC cfg_clamp, film = film_test,
          pixelFilter = PixelFilter ''BLACKMANHARRIS'',
          sampleSplatter = None, bootStrapSeed = 131, startRenderState = None,
          hasStartFilm = False, maxPathDepth = 0, rrDepth = 0, rrImportanceCap = 0,
          sqrtVarianceClampMaxValue = 0\<rparr>"
proof -
  have b: "CPUNoTileRenderEngine_ctor X_test rcfg = Inr
        \<lparr>renderConfig = rcfg, film = film_test, pixelFilter = PixelFilter ''BLACKMANHARRIS'',
         sampleSplatter = None, bootStrapSeed = 131, startRenderState = None,
         hasStartFilm = False, maxPathDepth = 0, rrDepth = 0, rrImportanceCap = 0,
         sqrtVarianceClampMaxValue = 0\<rparr>" for rcfg
    by (simp add: X_test_def)
  have t: "GetType (camera (scene (rcfg_test ct c))) = ct" for ct c
    by (simp add: rcfg_test_def)
  from LightCPURenderEngine_ctor_stereo [of "rcfg_test STEREO cfg_clamp" X_test]
  have 1: "LightCPURenderEngine_ctor X_test (rcfg_test STEREO cfg_clamp) =
     Inl (runtime_error ''Light render engine doesn't support stereo camera'')"
    by (simp add: t b)
  from LightCPURenderEngine_ctor_stereo [of "rcfg_test ORTHOGRAPHIC cfg_clamp" X_test]
  have 2: "LightCPURenderEngine_ctor X_test (rcfg_test ORTHOGRAPHIC cfg_clamp) =
     Inr \<lparr>renderConfig = rcfg_test ORTHOGRAPHIC cfg_clamp, film = film_test,
          pixelFilter = PixelFilter ''BLACKMANHARRIS'',
          sampleSplatter = None, bootStrapSeed = 131, startRenderState = None,
          hasStartFilm = False, maxPathDepth = 0, rrDepth = 0, rrImportanceCap = 0,
          sqrtVarianceClampMaxValue = 0\<rparr>"
    by (simp add: t b)
  from 1 2 show ?thesis by blast
qed

subsection \<open>InitFilm\<close>

text \<open>
  Claim C9. \<^verbatim>\<open>InitFilm\<close> hands to \<^verbatim>\<open>Film::Init\<close> the engine's film with the channels
  \<^verbatim>\<open>RADIANCE_PER_PIXEL_NORMALIZED\<close> and \<^verbatim>\<open>RADIANCE_PER_SCREEN_NORMALIZED\<close> added to its
  channel set, the overlapped screen-buffer-update flag set, and the radiance-group count
  set to the scene's \<^verbatim>\<open>lightDefs.GetLightGroupCount()\<close>; the initialised film is the
  engine's film afterwards, and nothing else of the engine changes.
\<close>

theorem InitFilm_registers_channels:
  "InitFilm X e = e\<lparr>film := Film_Init X
      ((film e)\<lparr>channels := {RADIANCE_PER_PIXEL_NORMALIZED, RADIANCE_PER_SCREEN_NORMALIZED} \<union> channels (film e),
                enabledOverlappedScreenBufferUpdate := True,
                radianceGroupCount := GetLightGroupCount (lightDefs (scene (renderConfig e)))\<rparr>)\<rparr>"
  by (simp add: InitFilm_def AddChannel_def SetOverlappedScreenBufferUpdateFlag_def
      SetRadianceGroupCount_def insert_commute)

subsection \<open>StartLockLess\<close>

text \<open>
  Claim C4. When \<^verbatim>\<open>StartLockLess\<close> reaches the base-class start, the engine's
  \<^verbatim>\<open>sqrtVarianceClampMaxValue\<close> is \<^verbatim>\<open>Max(0.f, v)\<close>, where \<open>v\<close> is the \<^verbatim>\<open>float\<close> value of the
  property \<^verbatim>\<open>path.clamping.variance.maxvalue\<close> when the configuration defines it, otherwise
  the \<^verbatim>\<open>float\<close> value of the legacy property \<^verbatim>\<open>path.clamping.radiance.maxvalue\<close> when the
  configuration defines that, and \<^verbatim>\<open>0.f\<close> when it defines neither.
\<close>

theorem StartLockLess_clamping:
  assumes "StartLockLess_own X P e = Inr e'"
  shows "\<exists>v. sqrtVarianceClampMaxValue e' = f_Max P (f_lit P 0) v \<and>
     (case cfg (renderConfig e) ''path.clamping.variance.maxvalue'' of
        Some w \<Rightarrow> Get_float X (''path.clamping.variance.maxvalue'', w) = Inr v
      | None \<Rightarrow>
          (case cfg (renderConfig e) ''path.clamping.radiance.maxvalue'' of
             Some w \<Rightarrow> Get_float X (''path.clamping.radiance.maxvalue'', w) = Inr v
           | None \<Rightarrow> v = f_lit P 0))"
proof -
  from StartLockLess_own_Inr [OF assms] obtain e1 e2 where
    p: "StartLockLess_parameters X P e = Inr e1" and r: "StartLockLess_restore X e1 = Inr e2"
    and e': "e' = e2\<lparr>sampleSplatter := Some (FilmSampleSplatter (pixelFilter e2))\<rparr>"
    by blast
  from StartLockLess_parameters_Inr [OF p] obtain v5 where
    v: "case cfg (renderConfig e) ''path.clamping.variance.maxvalue'' of
        Some w \<Rightarrow> Get_float X (''path.clamping.variance.maxvalue'', w) = Inr v5
      | None \<Rightarrow>
          (case cfg (renderConfig e) ''path.clamping.radiance.maxvalue'' of
             Some w \<Rightarrow> Get_float X (''path.clamping.radiance.maxvalue'', w) = Inr v5
           | None \<Rightarrow> v5 = f_lit P 0)"
    and s: "sqrtVarianceClampMaxValue e1 = f_Max P (f_lit P 0) v5"
    by auto
  from StartLockLess_restore_Inr [OF r] s e'
  have "sqrtVarianceClampMaxValue e' = f_Max P (f_lit P 0) v5" by simp
  with v show ?thesis by blast
qed

theorem StartLockLess_clamping_witness:
  "StartLockLess_own X_test P_exact (engine_test cfg_clamp None) =
     Inr ((engine_test cfg_clamp None)\<lparr>maxPathDepth := 12, rrDepth := 3, rrImportanceCap := 1 / 2,
        sqrtVarianceClampMaxValue := 7, hasStartFilm := False,
        sampleSplatter := Some (FilmSampleSplatter (PixelFilter ''BLACKMANHARRIS''))\<rparr>)
   \<and> cfg (renderConfig (engine_test cfg_clamp None)) ''path.clamping.variance.maxvalue'' = Some (FloatVal 7)
   \<and> cfg (renderConfig (engine_test cfg_clamp None)) ''path.clamping.radiance.maxvalue'' = Some (FloatVal 9)
   \<and> f_Max P_exact (f_lit P_exact 0) 7 = 7"
proof -
  have c: "cfg (renderConfig (engine_test cfg_clamp None)) = cfg_clamp"
    by (simp add: engine_test_def rcfg_test_def)
  from StartLockLess_clamping [OF own_clamp]
  have "f_Max P_exact (f_lit P_exact 0) 7 = 7"
    by (simp add: c cfg_clamp_keys)
  then show ?thesis
    using own_clamp by (simp add: c cfg_clamp_keys)
qed

text \<open>
  Claim C6. When \<^verbatim>\<open>StartLockLess\<close> reaches the base-class start, \<^verbatim>\<open>maxPathDepth\<close>,
  \<^verbatim>\<open>rrDepth\<close> and \<^verbatim>\<open>rrImportanceCap\<close> are the \<^verbatim>\<open>int\<close>, \<^verbatim>\<open>int\<close> and \<^verbatim>\<open>float\<close> values of the
  properties \<^verbatim>\<open>light.maxdepth\<close>, \<^verbatim>\<open>light.russianroulette.depth\<close> and
  \<^verbatim>\<open>light.russianroulette.cap\<close> of the configuration, and \<open>5\<close>, \<open>3\<close> and \<^verbatim>\<open>.5f\<close> for a
  property the configuration does not define.
\<close>

theorem StartLockLess_light_parameters:
  assumes "StartLockLess_own X P e = Inr e'"
  shows "(case cfg (renderConfig e) ''light.maxdepth'' of
            Some w \<Rightarrow> Get_int X (''light.maxdepth'', w) = Inr (maxPathDepth e')
          | None \<Rightarrow> maxPathDepth e' = 5)
     \<and> (case cfg (renderConfig e) ''light.russianroulette.depth'' of
            Some w \<Rightarrow> Get_int X (''light.russianroulette.depth'', w) = Inr (rrDepth e')
          | None \<Rightarrow> rrDepth e' = 3)
     \<and> (case cfg (renderConfig e) ''light.russianroulette.cap'' of
            Some w \<Rightarrow> Get_float X (''light.russianroulette.cap'', w) = Inr (rrImportanceCap e')
          | None \<Rightarrow> rrImportanceCap e' = f_lit P (1 / 2))"
proof -
  from StartLockLess_own_Inr [OF assms] obtain e1 e2 where
    p: "StartLockLess_parameters X P e = Inr e1" and r: "StartLockLess_restore X e1 = Inr e2"
    and e': "e' = e2\<lparr>sampleSplatter := Some (FilmSampleSplatter (pixelFilter e2))\<rparr>"
    by blast
  from StartLockLess_restore_Inr [OF r] e'
  have eq: "maxPathDepth e' = maxPathDepth e1" "rrDepth e' = rrDepth e1"
    "rrImportanceCap e' = rrImportanceCap e1"
    by simp_all
  from StartLockLess_parameters_Inr [OF p] show ?thesis
    unfolding eq by (auto split: option.splits)
qed

theorem StartLockLess_light_parameters_witness:
  "StartLockLess_own X_test P_exact (engine_test cfg_clamp None) =
     Inr ((engine_test cfg_clamp None)\<lparr>maxPathDepth := 12, rrDepth := 3, rrImportanceCap := 1 / 2,
        sqrtVarianceClampMaxValue := 7, hasStartFilm := False,
        sampleSplatter := Some (FilmSampleSplatter (PixelFilter ''BLACKMANHARRIS''))\<rparr>)
   \<and> cfg (renderConfig (engine_test cfg_clamp None)) ''light.maxdepth'' = Some (IntVal 12)
   \<and> cfg (renderConfig (engine_test cfg_clamp None)) ''light.russianroulette.depth'' = None
   \<and> cfg (renderConfig (engine_test cfg_clamp None)) ''light.russianroulette.cap'' = None
   \<and> f_lit P_exact (1 / 2) = 1 / 2"
proof -
  have c: "cfg (renderConfig (engine_test cfg_clamp None)) = cfg_clamp"
    by (simp add: engine_test_def rcfg_test_def)
  from StartLockLess_light_parameters [OF own_clamp]
  have "f_lit P_exact (1 / 2) = 1 / 2"
    by (simp add: c cfg_clamp_keys)
  then show ?thesis
    using own_clamp by (simp add: c cfg_clamp_keys)
qed

text \<open>
  Claim C5. Let the sampler check pass and the rendering parameters be read. With a
  pending render state whose tag check against \<^verbatim>\<open>GetObjectTag()\<close> raises, \<^verbatim>\<open>StartLockLess\<close>
  fails with that exception, whatever the base-class start would do: the engine does not
  start. With a pending render state that passes the check, the engine handed to the
  base-class start has no pending state any more and has \<^verbatim>\<open>hasStartFilm\<close> set. With no
  pending render state, \<^verbatim>\<open>hasStartFilm\<close> is cleared and the bootstrap seed is the one the
  engine had.
\<close>

theorem StartLockLess_render_state:
  assumes "CheckSamplersForNoTile X (RenderEngineType2String_GetType X) (cfg (renderConfig e)) = None"
    and "StartLockLess_parameters X P e = Inr e1"
  shows "(\<forall>rs x. startRenderState e = Some rs \<and> CheckEngineTag X rs (GetObjectTag X) = Some x \<longrightarrow>
            StartLockLess X P e = Inl x)
   \<and> (\<forall>rs. startRenderState e = Some rs \<and> CheckEngineTag X rs (GetObjectTag X) = None \<longrightarrow>
        (\<exists>e'. StartLockLess_own X P e = Inr e' \<and> startRenderState e' = None \<and> hasStartFilm e' \<and>
              StartLockLess X P e = CPUNoTileRenderEngine_StartLockLess X e'))
   \<and> (startRenderState e = None \<longrightarrow>
        (\<exists>e'. StartLockLess_own X P e = Inr e' \<and> startRenderState e' = None \<and> \<not> hasStartFilm e' \<and>
              bootStrapSeed e' = bootStrapSeed e \<and>
              StartLockLess X P e = CPUNoTileRenderEngine_StartLockLess X e'))"
  using assms StartLockLess_parameters_frame [OF assms(2)]
  by (auto simp: StartLockLess_def StartLockLess_own_def StartLockLess_restore_def bindE_def
      SetSeed_def Let_def)

theorem StartLockLess_render_state_witness:
  "StartLockLess X_test P_exact
      (engine_test cfg_clamp (Some \<lparr>engineTag = ''PATHCPU'', state_bootStrapSeed = 41\<rparr>)) =
     Inl (runtime_error ''Wrong engine type in a render state'')
   \<and> (case StartLockLess X_test P_exact
         (engine_test cfg_clamp (Some \<lparr>engineTag = ''LIGHTCPU'', state_bootStrapSeed = 41\<rparr>)) of
        Inl x \<Rightarrow> False
      | Inr e' \<Rightarrow> startRenderState e' = None \<and> hasStartFilm e')
   \<and> (case StartLockLess X_test P_exact (engine_test cfg_clamp None) of
        Inl x \<Rightarrow> False
      | Inr e' \<Rightarrow> startRenderState e' = None \<and> \<not> hasStartFilm e' \<and> bootStrapSeed e' = 131)"
proof -
  have s: "CheckSamplersForNoTile X_test (RenderEngineType2String_GetType X_test)
      (cfg (renderConfig (engine_test cfg_clamp rs))) = None" for rs
    by (simp add: X_test_def)
  have b: "CPUNoTileRenderEngine_StartLockLess X_test = Inr"
    by (simp add: X_test_def)
  have f: "startRenderState (engine_test cfg_clamp rs) = rs" "bootStrapSeed (engine_test cfg_clamp rs) = 131" for rs
    by (simp_all add: engine_test_def)
  have t1: "CheckEngineTag X_test \<lparr>engineTag = ''PATHCPU'', state_bootStrapSeed = 41\<rparr> (GetObjectTag X_test) =
      Some (runtime_error ''Wrong engine type in a render state'')"
    by (simp add: X_test_def)
  have t2: "CheckEngineTag X_test \<lparr>engineTag = ''LIGHTCPU'', state_bootStrapSeed = 41\<rparr> (GetObjectTag X_test) = None"
    by (simp add: X_test_def)
  let ?bad = "Some \<lparr>engineTag = ''PATHCPU'', state_bootStrapSeed = 41\<rparr>"
  let ?good = "Some \<lparr>engineTag = ''LIGHTCPU'', state_bootStrapSeed = 41\<rparr>"
  from StartLockLess_render_state [OF s [of ?bad] parameters_clamp [of ?bad]] t1
  have 1: "StartLockLess X_test P_exact
      (engine_test cfg_clamp (Some \<lparr>engineTag = ''PATHCPU'', state_bootStrapSeed = 41\<rparr>)) =
     Inl (runtime_error ''Wrong engine type in a render state'')"
    by (simp add: f)
  from StartLockLess_render_state [OF s [of ?good] parameters_clamp [of ?good]] t2
  have 2: "case StartLockLess X_test P_exact
         (engine_test cfg_clamp (Some \<lparr>engineTag = ''LIGHTCPU'', state_bootStrapSeed = 41\<rparr>)) of
        Inl x \<Rightarrow> False
      | Inr e' \<Rightarrow> startRenderState e' = None \<and> hasStartFilm e'"
    by (auto simp: f b)
  from StartLockLess_render_state [OF s [of None] parameters_clamp [of None]]
  have 3: "case StartLockLess X_test P_exact (engine_test cfg_clamp None) of
        Inl x \<Rightarrow> False
      | Inr e' \<Rightarrow> startRenderState e' = None \<and> \<not> hasStartFilm e' \<and> bootStrapSeed e' = 131"
    by (auto simp: f b)
  from 1 2 3 show ?thesis by blast
qed

subsection \<open>Render state and seed\<close>

text \<open>
  \<^verbatim>\<open>GetRenderState\<close> returns a new render state that carries the engine's tag and the
  current bootstrap seed, and leaves the engine, its seed included, as it was.
\<close>

theorem GetRenderState_snapshot:
  "GetRenderState X e = (\<lparr>engineTag = GetObjectTag X, state_bootStrapSeed = bootStrapSeed e\<rparr>, e)"
  by (simp add: GetRenderState_def LightCPURenderState_ctor_def)

text \<open>
  Claim C2 does not hold of the code. \<^verbatim>\<open>GetRenderState\<close> creates a \<^verbatim>\<open>LightCPURenderState\<close>
  that holds the seed \<open>s\<close>, but line 83 casts the pending state to
  \<^verbatim>\<open>LightCPURenderEngine *\<close>, so line 86 reads the member \<^verbatim>\<open>bootStrapSeed\<close> of the engine
  class through a pointer to a render-state object. The new seed is one more than the
  word \<open>w\<close> which that read yields, whatever seed \<open>s\<close> the state holds.
\<close>

theorem StartLockLess_restore_reads_through_engine_pointer:
  "StartLockLess_restore (X_test\<lparr>bootStrapSeed_through_engine_pointer := (\<lambda>st. w)\<rparr>)
      (engine_test c (Some (LightCPURenderState_ctor X_test s))) =
     Inr ((engine_test c None)\<lparr>bootStrapSeed := w + 1, hasStartFilm := True\<rparr>)"
  by (simp add: StartLockLess_restore_def LightCPURenderState_ctor_def SetSeed_def X_test_def
      engine_test_def)

subsection \<open>ToProperties and FromProperties\<close>

text \<open>
  Claim C1, as amended. Let the sampler's \<^verbatim>\<open>ToProperties\<close> emit none of the three
  \<^verbatim>\<open>light.*\<close> keys. Then \<^verbatim>\<open>ToProperties(cfg)\<close> returns a property bag that defines
  \<^verbatim>\<open>light.maxdepth\<close>, \<^verbatim>\<open>light.russianroulette.depth\<close> and \<^verbatim>\<open>light.russianroulette.cap\<close>,
  each with the value it has in \<open>cfg\<close>, and with its default \<open>5\<close>, \<open>3\<close>, \<^verbatim>\<open>.5f\<close> when
  \<open>cfg\<close> does not define it. So the three keys read in the returned bag as they do in
  \<open>cfg\<close>, and an engine configured by that bag resolves at start the same
  \<^verbatim>\<open>maxPathDepth\<close>, \<^verbatim>\<open>rrDepth\<close> and \<^verbatim>\<open>rrImportanceCap\<close> as an engine configured by \<open>cfg\<close>.
\<close>

theorem ToProperties_round_trip_light_parameters:
  assumes "Sampler_ToProperties X c ''light.maxdepth'' = None"
    and "Sampler_ToProperties X c ''light.russianroulette.depth'' = None"
    and "Sampler_ToProperties X c ''light.russianroulette.cap'' = None"
  shows "\<exists>c'. ToProperties X P c = Inr c' \<and>
     c' ''light.maxdepth'' =
       Some (case c ''light.maxdepth'' of Some v \<Rightarrow> v | None \<Rightarrow> IntVal 5) \<and>
     c' ''light.russianroulette.depth'' =
       Some (case c ''light.russianroulette.depth'' of Some v \<Rightarrow> v | None \<Rightarrow> IntVal 3) \<and>
     c' ''light.russianroulette.cap'' =
       Some (case c ''light.russianroulette.cap'' of Some v \<Rightarrow> v
             | None \<Rightarrow> FloatVal (f_lit P (1 / 2))) \<and>
     Get_cfg X P c' ''light.maxdepth'' = Get_cfg X P c ''light.maxdepth'' \<and>
     Get_cfg X P c' ''light.russianroulette.depth'' = Get_cfg X P c ''light.russianroulette.depth'' \<and>
     Get_cfg X P c' ''light.russianroulette.cap'' = Get_cfg X P c ''light.russianroulette.cap'' \<and>
     (\<forall>e e' e1 e1'. cfg (renderConfig e) = c \<and> cfg (renderConfig e') = c' \<and>
          StartLockLess_parameters X P e = Inr e1 \<and> StartLockLess_parameters X P e' = Inr e1' \<longrightarrow>
          maxPathDepth e1' = maxPathDepth e1 \<and> rrDepth e1' = rrDepth e1 \<and>
          rrImportanceCap e1' = rrImportanceCap e1)"
proof -
  obtain c' where c': "ToProperties X P c = Inr c'"
    by (simp add: ToProperties_value)
  note k = ToProperties_light_keys [OF assms c']
  have g: "Get_cfg X P c' ''light.maxdepth'' = Get_cfg X P c ''light.maxdepth''"
    "Get_cfg X P c' ''light.russianroulette.depth'' = Get_cfg X P c ''light.russianroulette.depth''"
    "Get_cfg X P c' ''light.russianroulette.cap'' = Get_cfg X P c ''light.russianroulette.cap''"
    by (simp_all add: Get_cfg_keys k)
  have "maxPathDepth e1' = maxPathDepth e1 \<and> rrDepth e1' = rrDepth e1 \<and>
          rrImportanceCap e1' = rrImportanceCap e1"
    if h: "cfg (renderConfig e) = c" "cfg (renderConfig e') = c'"
      "StartLockLess_parameters X P e = Inr e1" "StartLockLess_parameters X P e' = Inr e1'"
    for e e' e1 e1'
    using StartLockLess_parameters_Inr [OF h(3)] StartLockLess_parameters_Inr [OF h(4)]
    by (auto simp: h(1,2) k)
  with c' g k show ?thesis by blast
qed

theorem ToProperties_round_trip_light_parameters_witness:
  "Sampler_ToProperties X_test cfg_clamp ''light.maxdepth'' = None
   \<and> Sampler_ToProperties X_test cfg_clamp ''light.russianroulette.depth'' = None
   \<and> Sampler_ToProperties X_test cfg_clamp ''light.russianroulette.cap'' = None
   \<and> cfg_clamp ''light.maxdepth'' = Some (IntVal 12)
   \<and> cfg_clamp ''light.russianroulette.depth'' = None
   \<and> cfg_clamp ''light.russianroulette.cap'' = None
   \<and> (case ToProperties X_test P_exact cfg_clamp of
        Inl x \<Rightarrow> False
      | Inr c' \<Rightarrow>
          c' ''light.maxdepth'' = Some (IntVal 12) \<and>
          c' ''light.russianroulette.depth'' = Some (IntVal 3) \<and>
          c' ''light.russianroulette.cap'' = Some (FloatVal (1 / 2)) \<and>
          (case StartLockLess_parameters X_test P_exact (engine_test c' None) of
             Inl x \<Rightarrow> False
           | Inr e1' \<Rightarrow> maxPathDepth e1' = 12 \<and> rrDepth e1' = 3 \<and> rrImportanceCap e1' = 1 / 2))"
proof -
  have s: "Sampler_ToProperties X_test cfg_clamp ''light.maxdepth'' = None"
    "Sampler_ToProperties X_test cfg_clamp ''light.russianroulette.depth'' = None"
    "Sampler_ToProperties X_test cfg_clamp ''light.russianroulette.cap'' = None"
    by (simp_all add: X_test_ToProperties)
  from ToProperties_round_trip_light_parameters [OF s, of P_exact]
  obtain c' where c': "ToProperties X_test P_exact cfg_clamp = Inr c'"
    and k: "c' ''light.maxdepth'' =
         Some (case cfg_clamp ''light.maxdepth'' of Some v \<Rightarrow> v | None \<Rightarrow> IntVal 5)"
      "c' ''light.russianroulette.depth'' =
         Some (case cfg_clamp ''light.russianroulette.depth'' of Some v \<Rightarrow> v | None \<Rightarrow> IntVal 3)"
      "c' ''light.russianroulette.cap'' =
         Some (case cfg_clamp ''light.russianroulette.cap'' of Some v \<Rightarrow> v
               | None \<Rightarrow> FloatVal (f_lit P_exact (1 / 2)))"
    and r: "\<forall>e e' e1 e1'. cfg (renderConfig e) = cfg_clamp \<and> cfg (renderConfig e') = c' \<and>
          StartLockLess_parameters X_test P_exact e = Inr e1 \<and>
          StartLockLess_parameters X_test P_exact e' = Inr e1' \<longrightarrow>
          maxPathDepth e1' = maxPathDepth e1 \<and> rrDepth e1' = rrDepth e1 \<and>
          rrImportanceCap e1' = rrImportanceCap e1"
    by blast
  have kv: "c' ''light.maxdepth'' = Some (IntVal 12)"
    "c' ''light.russianroulette.depth'' = Some (IntVal 3)"
    "c' ''light.russianroulette.cap'' = Some (FloatVal (1 / 2))"
    using k by (simp_all add: cfg_clamp_keys P_exact_literals)
  have cc: "cfg (renderConfig (engine_test d None)) = d" for d
    by (simp add: engine_test_def rcfg_test_def)
  note ck = ToProperties_test_clamping_keys [OF c']
  have p': "StartLockLess_parameters X_test P_exact (engine_test c' None) =
      Inr ((engine_test c' None)\<lparr>maxPathDepth := 12, rrDepth := 3, rrImportanceCap := 1 / 2,
             sqrtVarianceClampMaxValue := f_Max P_exact (f_lit P_exact 0) (f_lit P_exact 0)\<rparr>)"
    by (rule StartLockLess_parameters_typed [OF cc]) (simp_all add: kv ck)
  from r cc [of cfg_clamp] cc [of c'] parameters_clamp [of None] p'
  have "maxPathDepth ((engine_test c' None)\<lparr>maxPathDepth := 12, rrDepth := 3, rrImportanceCap := 1 / 2,
             sqrtVarianceClampMaxValue := f_Max P_exact (f_lit P_exact 0) (f_lit P_exact 0)\<rparr>) = 12"
    by simp
  with s kv c' p' show ?thesis
    by (simp add: cfg_clamp_keys)
qed

text \<open>
  Claim C1 as stated fails for the clamping value: \<^verbatim>\<open>ToProperties\<close> emits neither
  \<^verbatim>\<open>path.clamping.radiance.maxvalue\<close> nor \<^verbatim>\<open>path.clamping.variance.maxvalue\<close>. A
  configuration that sets either of them to \<open>5\<close> gives an engine that clamps at \<open>5\<close>;
  after the round trip the engine clamps at \<open>0\<close>, which means no clamping.
\<close>

theorem ToProperties_round_trip_counterexample:
  "effective_parameters X_test P_exact (rcfg_test PERSPECTIVE cfg_legacy) = Inr (5, 3, 1 / 2, 5)
   \<and> round_trip_parameters X_test P_exact (rcfg_test PERSPECTIVE cfg_legacy) = Inr (5, 3, 1 / 2, 0)
   \<and> effective_parameters X_test P_exact (rcfg_test PERSPECTIVE cfg_variance) = Inr (5, 3, 1 / 2, 5)
   \<and> round_trip_parameters X_test P_exact (rcfg_test PERSPECTIVE cfg_variance) = Inr (5, 3, 1 / 2, 0)"
proof -
  have 1: "effective_parameters X_test P_exact (rcfg_test PERSPECTIVE cfg_legacy) = Inr (5, 3, 1 / 2, max 0 5)"
    by (rule effective_parameters_test) (simp_all add: cfg_legacy_keys P_exact_literals)
  have 2: "round_trip_parameters X_test P_exact (rcfg_test PERSPECTIVE cfg_legacy) = Inr (5, 3, 1 / 2, 0)"
    by (rule round_trip_parameters_test) (simp_all add: cfg_legacy_keys P_exact_literals)
  have 3: "effective_parameters X_test P_exact (rcfg_test PERSPECTIVE cfg_variance) = Inr (5, 3, 1 / 2, max 0 5)"
    by (rule effective_parameters_test [where ?v4.0 = 0]) (simp_all add: cfg_variance_keys P_exact_literals)
  have 4: "round_trip_parameters X_test P_exact (rcfg_test PERSPECTIVE cfg_variance) = Inr (5, 3, 1 / 2, 0)"
    by (rule round_trip_parameters_test) (simp_all add: cfg_variance_keys P_exact_literals)
  from 1 2 3 4 show ?thesis by simp
qed

end
